theory Spec2Isabelle
  imports Main "HOL-Library.Word"
begin

unbundle bit_operations_syntax

section \<open>The virtio block and network drivers of libvirtio\<close>

text \<open>
  The development embeds \<^verbatim>\<open>virtio-blk.c\<close> and \<^verbatim>\<open>virtio-net.c\<close>. C structures are records
  passed in and returned updated; the memory shared with the device (descriptor table,
  available and used ring) is held by value in the queue record that points to it. Every
  access to a device register, every store to a ring and every memory barrier is appended,
  in program order, to the \<open>trace\<close> of the machine.

  C's \<^verbatim>\<open>int\<close> and \<^verbatim>\<open>unsigned int\<close> are \<open>32 word\<close>, \<^verbatim>\<open>long\<close>, \<^verbatim>\<open>uint64_t\<close> and pointers
  are \<open>64 word\<close> (the LP64 target of \<^verbatim>\<open>cpu.h\<close>, whose barrier is \<^verbatim>\<open>dsb sy\<close>); \<open>sint\<close> reads a
  signed value. A pointer is NULL when it is \<open>0\<close>. A function returns \<open>None\<close> where the C
  program has no defined behaviour or aborts (remainder by a zero queue size, a failed
  \<^verbatim>\<open>assert\<close>, \<^verbatim>\<open>memcpy\<close> of a negative length).
\<close>

subsection \<open>Constants\<close>

text \<open>
  Modelled from the spec: the headers \<^verbatim>\<open>virtio.h\<close>, \<^verbatim>\<open>virtio-blk.h\<close>, \<^verbatim>\<open>virtio-net.h\<close> and
  \<^verbatim>\<open>virtio-internal.h\<close> are not among the sources. The status bits (ACKNOWLEDGE=1, DRIVER=2,
  DRIVER_OK=4, FEATURES_OK=8, FAILED=128), the feature bits (VERSION_1 bit 32, BLK_SIZE bit 6,
  MAC bit 5), the queue numbers (RX 0, TX 1), the block configuration offsets (capacity at 0,
  blk_size at 20), the request types (READ = 0, WRITE = 1, FLUSH = 4), the 16-byte request
  header and the value 1526 of \<^verbatim>\<open>BUFFER_ENTRY_SIZE\<close> are the spec's; the spec names the descriptor flags NEXT and WRITE and the available-ring
  flag NO_INTERRUPT without numbers, and they have the values of the virtio standard that
  the spec conforms to.
\<close>

definition VIRTIO_STAT_ACKNOWLEDGE :: "32 word" where "VIRTIO_STAT_ACKNOWLEDGE = 1"
definition VIRTIO_STAT_DRIVER :: "32 word" where "VIRTIO_STAT_DRIVER = 2"
definition VIRTIO_STAT_DRIVER_OK :: "32 word" where "VIRTIO_STAT_DRIVER_OK = 4"
definition VIRTIO_STAT_FEATURES_OK :: "32 word" where "VIRTIO_STAT_FEATURES_OK = 8"
definition VIRTIO_STAT_FAILED :: "32 word" where "VIRTIO_STAT_FAILED = 128"

definition VIRTIO_F_VERSION_1 :: "64 word" where "VIRTIO_F_VERSION_1 = 0x100000000"
definition VIRTIO_BLK_F_BLK_SIZE :: "64 word" where "VIRTIO_BLK_F_BLK_SIZE = 0x40"
definition VIRTIO_NET_F_MAC :: "64 word" where "VIRTIO_NET_F_MAC = 0x20"

definition VRING_DESC_F_NEXT :: "16 word" where "VRING_DESC_F_NEXT = 1"
definition VRING_DESC_F_WRITE :: "16 word" where "VRING_DESC_F_WRITE = 2"
definition VRING_AVAIL_F_NO_INTERRUPT :: "16 word" where "VRING_AVAIL_F_NO_INTERRUPT = 1"

definition VQ_RX :: nat where "VQ_RX = 0"
definition VQ_TX :: nat where "VQ_TX = 1"

definition BUFFER_ENTRY_SIZE :: "32 word" where "BUFFER_ENTRY_SIZE = 1526"

definition VIRTIO_BLK_T_IN :: "32 word" where "VIRTIO_BLK_T_IN = 0"
definition VIRTIO_BLK_T_OUT :: "32 word" where "VIRTIO_BLK_T_OUT = 1"
definition VIRTIO_BLK_T_FLUSH :: "32 word" where "VIRTIO_BLK_T_FLUSH = 4"

subsection \<open>Data\<close>

text \<open>One entry of the descriptor table, and one of the used ring.\<close>

record vring_desc =
  addr :: "64 word"
  len :: "32 word"
  flags :: "16 word"
  "next" :: "16 word"

record vring_used_elem =
  used_id :: "32 word"
  used_len :: "32 word"

text \<open>
  \<^verbatim>\<open>struct vqs\<close> with the rings it points to. \<open>vq_size\<close> is \<^verbatim>\<open>vq->size\<close>: its C type is
  declared in a missing header, and every remainder the drivers take by it has
  non-negative operands below \<open>2 ^ 32\<close>, so the number itself is kept. The tables are
  functions of the slot number.
\<close>

record vqs =
  vq_size :: nat
  desc :: "nat \<Rightarrow> vring_desc"
  avail_flags :: "16 word"
  avail_idx :: "16 word"
  avail_ring :: "nat \<Rightarrow> 16 word"
  used_idx :: "16 word"
  used_ring :: "nat \<Rightarrow> vring_used_elem"
  buf_mem :: "64 word"
  pa :: "64 word"

record virtio_device =
  features :: "64 word"
  vq :: "nat \<Rightarrow> vqs"

record virtio_blk_req =
  req_type :: "32 word"
  sector :: "64 word"

record virtio_blk_req_data =
  blkhdr :: virtio_blk_req
  blkhdr_pa :: "64 word"
  status_pa :: "64 word"

text \<open>What the driver does to the outside, in program order.\<close>

datatype event =
    Set_Status "32 word"
  | Get_Status
  | Get_Host_Features
  | Set_Guest_Features "64 word"
  | Get_Config nat nat
  | Get_QSize nat
  | Queue_Set_Addresses nat
  | Queue_Ready nat
  | Queue_Notify nat
  | Queue_Term nat
  | Barrier
  | Free_Desc nat nat
  | Store_Desc nat nat vring_desc
  | Store_Avail_Ring nat nat "16 word"
  | Store_Avail_Idx nat "16 word"
  | Store_Avail_Flags nat "16 word"

text \<open>
  The machine: the device behind the transport (its one-byte status register, the features
  it offers, the features written to it, whether it keeps FEATURES_OK, its answers to
  configuration reads, its queue sizes), the contiguous-memory arena \<^verbatim>\<open>slof_cma\<close> of
  \<^verbatim>\<open>helpers.c\<close> (\<open>None\<close> when the pointer is NULL, otherwise the blocks it will hand out,
  virtual and physical address, a NULL block for a refused request), guest memory, the
  byte order of the CPU, the static variables of \<^verbatim>\<open>virtio-net.c\<close> (\<^verbatim>\<open>net_hdr_size\<close>,
  \<^verbatim>\<open>last_rx_idx\<close>, \<^verbatim>\<open>last_tx_idx\<close> and the addresses of the two constant headers of
  \<^verbatim>\<open>virtionet_xmit\<close>), and the trace.
\<close>

record machine =
  status_reg :: "8 word"
  host_features :: "64 word"
  guest_features :: "64 word"
  keeps_features_ok :: bool
  config :: "nat \<Rightarrow> nat \<Rightarrow> 64 word"
  qsize :: "nat \<Rightarrow> 16 word"
  slof_cma :: "(64 word \<times> 64 word) list option"
  mem :: "64 word \<Rightarrow> 8 word"
  big_endian :: bool
  net_hdr_size :: "32 word"
  last_rx_idx :: "16 word"
  last_tx_idx :: "16 word"
  nethdr_v1 :: "64 word"
  nethdr_legacy :: "64 word"
  trace :: "event list"

definition emit :: "event \<Rightarrow> machine \<Rightarrow> machine" where
  "emit e m = m\<lparr>trace := trace m @ [e]\<rparr>"

subsection \<open>Byte order\<close>

text \<open>
  \<^verbatim>\<open>byteorder.h\<close> is not among the sources: \<^verbatim>\<open>cpu_to_leN\<close> is the identity on a little-endian
  CPU and reverses the bytes on a big-endian one. The first argument says whether the CPU
  is big-endian.
\<close>

definition bswap16 :: "16 word \<Rightarrow> 16 word" where
  "bswap16 x = push_bit 8 x OR drop_bit 8 x"

definition bswap32 :: "32 word \<Rightarrow> 32 word" where
  "bswap32 x = push_bit 24 x OR push_bit 8 (x AND 0xFF00)
     OR (drop_bit 8 x AND 0xFF00) OR drop_bit 24 x"

definition bswap64 :: "64 word \<Rightarrow> 64 word" where
  "bswap64 x = push_bit 32 (ucast (bswap32 (ucast x)))
     OR ucast (bswap32 (ucast (drop_bit 32 x)))"

definition cpu_to_le16 :: "bool \<Rightarrow> 16 word \<Rightarrow> 16 word" where
  "cpu_to_le16 be x = (if be then bswap16 x else x)"

definition cpu_to_le32 :: "bool \<Rightarrow> 32 word \<Rightarrow> 32 word" where
  "cpu_to_le32 be x = (if be then bswap32 x else x)"

definition cpu_to_le64 :: "bool \<Rightarrow> 64 word \<Rightarrow> 64 word" where
  "cpu_to_le64 be x = (if be then bswap64 x else x)"

text \<open>
  Modelled from the spec: the byte-order adapter of \<^verbatim>\<open>virtio-internal.h\<close> is missing.
  It converts between guest-native and little-endian when the device is modern and is
  the identity when it is legacy; the conversion is its own inverse, so one function
  serves both directions.
\<close>

definition is_modern :: "64 word \<Rightarrow> bool" where
  "is_modern f = (f AND VIRTIO_F_VERSION_1 \<noteq> 0)"

definition virtio_cpu_to_modern16 :: "bool \<Rightarrow> virtio_device \<Rightarrow> 16 word \<Rightarrow> 16 word" where
  "virtio_cpu_to_modern16 be dev x = (if is_modern (features dev) then cpu_to_le16 be x else x)"

definition virtio_modern16_to_cpu :: "bool \<Rightarrow> virtio_device \<Rightarrow> 16 word \<Rightarrow> 16 word" where
  "virtio_modern16_to_cpu be dev x = (if is_modern (features dev) then cpu_to_le16 be x else x)"

definition virtio_modern32_to_cpu :: "bool \<Rightarrow> virtio_device \<Rightarrow> 32 word \<Rightarrow> 32 word" where
  "virtio_modern32_to_cpu be dev x = (if is_modern (features dev) then cpu_to_le32 be x else x)"

definition virtio_modern64_to_cpu :: "bool \<Rightarrow> virtio_device \<Rightarrow> 64 word \<Rightarrow> 64 word" where
  "virtio_modern64_to_cpu be dev x = (if is_modern (features dev) then cpu_to_le64 be x else x)"

subsection \<open>The transport shim and the virtqueue engine\<close>

text \<open>
  Modelled from the spec: \<^verbatim>\<open>virtio.c\<close> is missing. \<open>config_read(offset, size)\<close> reads from
  the device-specific configuration region; \<open>queue_notify(index)\<close> is a write to a
  transport register; \<open>fill_desc(id, addr, len, flags, next)\<close> writes one descriptor
  entry \<open>{addr: u64, len: u32, flags: u16, next: u16}\<close> through the byte-order adapter,
  the adapter being chosen by the feature word the caller passes. The spec does not say
  what becomes of a slot number that is not below the queue size: the entry is written at
  the number given.
\<close>

definition virtio_get_config :: "virtio_device \<Rightarrow> nat \<Rightarrow> nat \<Rightarrow> machine \<Rightarrow> 64 word \<times> machine" where
  "virtio_get_config dev off sz m = (config m off sz, emit (Get_Config off sz) m)"

definition virtio_queue_notify :: "virtio_device \<Rightarrow> nat \<Rightarrow> machine \<Rightarrow> machine" where
  "virtio_queue_notify dev q m = emit (Queue_Notify q) m"

definition desc_to_dev :: "bool \<Rightarrow> 64 word \<Rightarrow> vring_desc \<Rightarrow> vring_desc" where
  "desc_to_dev be feat d =
     (if is_modern feat
      then \<lparr>addr = cpu_to_le64 be (addr d), len = cpu_to_le32 be (len d),
            flags = cpu_to_le16 be (flags d), next = cpu_to_le16 be (next d)\<rparr>
      else d)"

definition virtio_fill_desc ::
  "nat \<Rightarrow> nat \<Rightarrow> 64 word \<Rightarrow> 64 word \<Rightarrow> 32 word \<Rightarrow> 16 word \<Rightarrow> 16 word
    \<Rightarrow> virtio_device \<times> machine \<Rightarrow> virtio_device \<times> machine" where
  "virtio_fill_desc q i feat a l fl nx = (\<lambda>(dev, m).
     (let d = desc_to_dev (big_endian m) feat \<lparr>addr = a, len = l, flags = fl, next = nx\<rparr>;
          v = vq dev q
      in (dev\<lparr>vq := (vq dev)(q := v\<lparr>desc := (desc v)(i := d)\<rparr>)\<rparr>,
          emit (Store_Desc q i d) m)))"

text \<open>The stores to the available ring and the barrier \<^verbatim>\<open>mb()\<close>, \<^verbatim>\<open>sync()\<close> of \<^verbatim>\<open>cpu.h\<close>.\<close>

definition store_avail_ring :: "nat \<Rightarrow> nat \<Rightarrow> 16 word \<Rightarrow> virtio_device \<times> machine \<Rightarrow> virtio_device \<times> machine" where
  "store_avail_ring q i x = (\<lambda>(dev, m).
     (let v = vq dev q
      in (dev\<lparr>vq := (vq dev)(q := v\<lparr>avail_ring := (avail_ring v)(i := x)\<rparr>)\<rparr>,
          emit (Store_Avail_Ring q i x) m)))"

definition store_avail_idx :: "nat \<Rightarrow> 16 word \<Rightarrow> virtio_device \<times> machine \<Rightarrow> virtio_device \<times> machine" where
  "store_avail_idx q x = (\<lambda>(dev, m).
     (let v = vq dev q
      in (dev\<lparr>vq := (vq dev)(q := v\<lparr>avail_idx := x\<rparr>)\<rparr>, emit (Store_Avail_Idx q x) m)))"

definition store_avail_flags :: "nat \<Rightarrow> 16 word \<Rightarrow> virtio_device \<times> machine \<Rightarrow> virtio_device \<times> machine" where
  "store_avail_flags q x = (\<lambda>(dev, m).
     (let v = vq dev q
      in (dev\<lparr>vq := (vq dev)(q := v\<lparr>avail_flags := x\<rparr>)\<rparr>, emit (Store_Avail_Flags q x) m)))"

definition sync :: "virtio_device \<times> machine \<Rightarrow> virtio_device \<times> machine" where
  "sync = (\<lambda>(dev, m). (dev, emit Barrier m))"

definition mb :: "virtio_device \<times> machine \<Rightarrow> virtio_device \<times> machine" where
  "mb = sync"

text \<open>
  Modelled from the spec: the rest of the transport shim of \<^verbatim>\<open>virtio.c\<close>. \<open>reset\<close> writes
  zero status and polls the status until it is zero (the register of the model reads zero
  at once); \<open>set_status\<close> is a one-byte OR-into-register access, and a device that does
  not accept the features clears FEATURES_OK; \<open>negotiate\<close> reads the host features,
  computes \<open>guest = host AND supported\<close>, writes the guest features, sets FEATURES_OK,
  re-reads the status and fails if FEATURES_OK was cleared, the negotiated set being
  recorded in the handle; \<open>free_desc\<close> marks a descriptor slot reusable, with an
  implementation-defined sentinel that the model keeps out of the table; the \<open>addr\<close>
  field of a descriptor gives the guest buffer.
\<close>

definition virtio_set_status :: "virtio_device \<Rightarrow> 32 word \<Rightarrow> machine \<Rightarrow> machine" where
  "virtio_set_status dev st m =
     (let r = status_reg m OR ucast st
      in emit (Set_Status st)
           (m\<lparr>status_reg := (if keeps_features_ok m then r
                                else r AND NOT (ucast VIRTIO_STAT_FEATURES_OK))\<rparr>))"

definition virtio_get_status :: "virtio_device \<Rightarrow> machine \<Rightarrow> 32 word \<times> machine" where
  "virtio_get_status dev m = (ucast (status_reg m), emit Get_Status m)"

definition virtio_reset_device :: "virtio_device \<Rightarrow> machine \<Rightarrow> machine" where
  "virtio_reset_device dev m = emit Get_Status (emit (Set_Status 0) (m\<lparr>status_reg := 0\<rparr>))"

definition virtio_get_host_features :: "virtio_device \<Rightarrow> machine \<Rightarrow> 64 word \<times> machine" where
  "virtio_get_host_features dev m = (host_features m, emit Get_Host_Features m)"

definition virtio_set_guest_features :: "virtio_device \<Rightarrow> 64 word \<Rightarrow> machine \<Rightarrow> machine" where
  "virtio_set_guest_features dev f m = emit (Set_Guest_Features f) (m\<lparr>guest_features := f\<rparr>)"

definition virtio_negotiate_guest_features ::
  "virtio_device \<Rightarrow> 64 word \<Rightarrow> machine \<Rightarrow> 32 word \<times> virtio_device \<times> machine" where
  "virtio_negotiate_guest_features dev supported m0 =
     (let (host, m1) = virtio_get_host_features dev m0;
          guest = host AND supported;
          m2 = virtio_set_guest_features dev guest m1;
          m3 = virtio_set_status dev VIRTIO_STAT_FEATURES_OK m2;
          (st, m4) = virtio_get_status dev m3
      in if st AND VIRTIO_STAT_FEATURES_OK = 0 then (- 1, dev, m4)
         else (0, dev\<lparr>features := guest\<rparr>, m4))"

definition virtio_get_qsize :: "virtio_device \<Rightarrow> nat \<Rightarrow> machine \<Rightarrow> 16 word \<times> machine" where
  "virtio_get_qsize dev q m = (qsize m q, emit (Get_QSize q) m)"

definition virtio_queue_ready :: "virtio_device \<Rightarrow> nat \<Rightarrow> machine \<Rightarrow> machine" where
  "virtio_queue_ready dev q m = emit (Queue_Ready q) m"

definition virtio_queue_term_vq :: "virtio_device \<Rightarrow> nat \<Rightarrow> machine \<Rightarrow> machine" where
  "virtio_queue_term_vq dev q m = emit (Queue_Term q) m"

definition virtio_free_desc ::
  "nat \<Rightarrow> nat \<Rightarrow> 64 word \<Rightarrow> virtio_device \<times> machine \<Rightarrow> virtio_device \<times> machine" where
  "virtio_free_desc q i feat = (\<lambda>(dev, m). (dev, emit (Free_Desc q i) m))"

definition virtio_desc_addr :: "bool \<Rightarrow> virtio_device \<Rightarrow> nat \<Rightarrow> nat \<Rightarrow> 64 word" where
  "virtio_desc_addr be dev q i = virtio_modern64_to_cpu be dev (addr (desc (vq dev q) i))"

text \<open>
  \<^verbatim>\<open>SLOF_alloc_mem_aligned\<close> and \<^verbatim>\<open>SLOF_free_mem_aligned\<close> of \<^verbatim>\<open>helpers.c\<close>: both assert
  \<^verbatim>\<open>slof_cma\<close>. The arena itself (\<^verbatim>\<open>cma_alloc\<close>, \<^verbatim>\<open>cma_free\<close>) is outside the repository: it
  answers a request with its next block, whatever the size asked for, and with NULL when
  it has none.
\<close>

definition SLOF_alloc_mem_aligned ::
  "32 word \<Rightarrow> nat \<Rightarrow> machine \<Rightarrow> ((64 word \<times> 64 word) \<times> machine) option" where
  "SLOF_alloc_mem_aligned sz alignment m =
     (case slof_cma m of
        None \<Rightarrow> None
      | Some [] \<Rightarrow> Some ((0, 0), m)
      | Some (b # bs) \<Rightarrow> Some (b, m\<lparr>slof_cma := Some bs\<rparr>))"

definition SLOF_free_mem_aligned :: "64 word \<Rightarrow> machine \<Rightarrow> machine option" where
  "SLOF_free_mem_aligned a m = (case slof_cma m of None \<Rightarrow> None | Some bs \<Rightarrow> Some m)"

text \<open>
  Modelled from the spec: \<^verbatim>\<open>virtio_queue_init_vq\<close> of \<^verbatim>\<open>virtio.c\<close> is missing. It selects the
  queue and reads its maximum size \<open>Q\<close>, failing if \<open>Q = 0\<close>; allocates one aligned
  region for descriptor table, available ring and used ring and zeroes it; publishes the
  addresses via the transport. The result is \<open>False\<close> for the NULL the C function returns.
  The size asked for is that of the three structures of the spec's data model (16-byte
  descriptors, 2-byte available entries, 8-byte used entries, three 16-bit fields around
  each ring); the spec does not give the padding.
\<close>

definition zero_vq :: "nat \<Rightarrow> vqs" where
  "zero_vq Q = \<lparr>vq_size = Q, desc = (\<lambda>i. \<lparr>addr = 0, len = 0, flags = 0, next = 0\<rparr>),
     avail_flags = 0, avail_idx = 0, avail_ring = (\<lambda>i. 0), used_idx = 0,
     used_ring = (\<lambda>i. \<lparr>used_id = 0, used_len = 0\<rparr>), buf_mem = 0, pa = 0\<rparr>"

definition virtio_queue_init_vq ::
  "virtio_device \<Rightarrow> nat \<Rightarrow> machine \<Rightarrow> (bool \<times> virtio_device \<times> machine) option" where
  "virtio_queue_init_vq dev q m0 =
     (let (Q, m1) = virtio_get_qsize dev q m0 in
      if Q = 0 then Some (False, dev, m1)
      else
        case SLOF_alloc_mem_aligned (16 * ucast Q + (6 + 2 * ucast Q) + (6 + 8 * ucast Q)) 16 m1 of
          None \<Rightarrow> None
        | Some ((va, p), m2) \<Rightarrow>
            if va = 0 then Some (False, dev, m2)
            else Some (True, dev\<lparr>vq := (vq dev)(q := zero_vq (unat Q))\<rparr>,
                       emit (Queue_Set_Addresses q) m2))"

text \<open>\<^verbatim>\<open>memcpy(dst, src, n)\<close> on guest memory.\<close>

definition memcpy :: "64 word \<Rightarrow> 64 word \<Rightarrow> 64 word \<Rightarrow> machine \<Rightarrow> machine" where
  "memcpy dst src n m =
     m\<lparr>mem := (\<lambda>a. if a - dst < n then mem m (src + (a - dst)) else mem m a)\<rparr>"

subsection \<open>The block driver\<close>

text \<open>\<^verbatim>\<open>DEFAULT_SECTOR_SIZE\<close> of \<^verbatim>\<open>virtio-blk.c\<close>.\<close>

definition DEFAULT_SECTOR_SIZE :: "32 word" where "DEFAULT_SECTOR_SIZE = 512"

text \<open>C's remainder truncates towards zero.\<close>

definition c_rem :: "int \<Rightarrow> int \<Rightarrow> int" where
  "c_rem a b = sgn a * (\<bar>a\<bar> mod \<bar>b\<bar>)"

text \<open>
  \<^verbatim>\<open>fill_blk_hdr\<close>: the parameters \<^verbatim>\<open>type\<close>, \<^verbatim>\<open>ioprio\<close> and \<^verbatim>\<open>sector\<close> are \<^verbatim>\<open>uint32_t\<close>; the field
  \<^verbatim>\<open>sector\<close> of the header is 64 bits wide.
\<close>

definition fill_blk_hdr ::
  "bool \<Rightarrow> virtio_blk_req \<Rightarrow> bool \<Rightarrow> 32 word \<Rightarrow> 32 word \<Rightarrow> 32 word \<Rightarrow> virtio_blk_req" where
  "fill_blk_hdr be hdr modern type ioprio sec =
     (if modern
      then hdr\<lparr>req_type := cpu_to_le32 be type, sector := cpu_to_le64 be (ucast sec)\<rparr>
      else hdr\<lparr>req_type := type, sector := ucast sec\<rparr>)"

text \<open>
  \<^verbatim>\<open>virtioblk_transfer\<close>. The sum \<^verbatim>\<open>blocknum + cnt - 1\<close> and the product
  \<^verbatim>\<open>blocknum * blk_size\<close> are taken in \<^verbatim>\<open>uint64_t\<close> (\<^verbatim>\<open>blk_size\<close> sign-extended), the quotient by
  512 is passed as \<^verbatim>\<open>uint32_t\<close>; \<^verbatim>\<open>cnt * blk_size\<close> is a \<^verbatim>\<open>long\<close> passed as the \<^verbatim>\<open>uint32_t\<close> length;
  \<^verbatim>\<open>dev->features\<close> is passed as the \<^verbatim>\<open>bool\<close> \<^verbatim>\<open>is_modern\<close>.
\<close>

definition virtioblk_transfer ::
  "virtio_device \<Rightarrow> virtio_blk_req_data \<Rightarrow> 64 word \<Rightarrow> 64 word \<Rightarrow> 64 word \<Rightarrow> 32 word
    \<Rightarrow> machine \<Rightarrow> (32 word \<times> virtio_device \<times> virtio_blk_req_data \<times> machine) option" where
  "virtioblk_transfer dev data buf blocknum cnt type m0 =
    (let (capacity, m1) = virtio_get_config dev 0 8 m0 in
     if blocknum + cnt - 1 > capacity then Some (0, dev, data, m1)
     else
       let (c, m2) = virtio_get_config dev 20 4 m1;
           blk_size = (ucast c :: 32 word)
       in
       if c_rem (sint blk_size) (sint DEFAULT_SECTOR_SIZE) \<noteq> 0 then Some (0, dev, data, m2)
       else if vq_size (vq dev 0) = 0 then None
       else
         let Q = vq_size (vq dev 0);
             aidx = (word_of_nat (unat (virtio_modern16_to_cpu (big_endian m2) dev (avail_idx (vq dev 0))) mod Q)
                      :: 16 word);
             data' = data\<lparr>blkhdr := fill_blk_hdr (big_endian m2) (blkhdr data) (features dev \<noteq> 0) type 1
                        (ucast ((blocknum * scast blk_size) div scast DEFAULT_SECTOR_SIZE))\<rparr>;
             i = (unat aidx * 3) mod Q;
             s1 = virtio_fill_desc 0 i (features dev) (blkhdr_pa data') 16
                    VRING_DESC_F_NEXT (word_of_nat (i + 1)) (dev, m2);
             s2 = virtio_fill_desc 0 (i + 1) (features dev) buf (ucast (cnt * scast blk_size))
                    (VRING_DESC_F_NEXT OR (if type AND 1 \<noteq> 0 then 0 else VRING_DESC_F_WRITE))
                    (word_of_nat (i + 2)) s1;
             s3 = virtio_fill_desc 0 (i + 2) (features dev) (status_pa data') 1
                    VRING_DESC_F_WRITE 0 s2;
             s4 = store_avail_ring 0 (unat aidx mod Q) (virtio_cpu_to_modern16 (big_endian m2) dev (word_of_nat i)) s3;
             s5 = mb s4;
             s6 = store_avail_idx 0 (virtio_cpu_to_modern16 (big_endian m2) dev (aidx + 1)) s5;
             (dev', m3) = s6
         in Some (0, dev', data', virtio_queue_notify dev' 0 m3))"


text \<open>
  \<^verbatim>\<open>virtioblk_init\<close>, with \<^verbatim>\<open>DRIVER_FEATURE_SUPPORT\<close> of \<^verbatim>\<open>virtio-blk.c\<close> and the exit through
  \<^verbatim>\<open>dev_error\<close>.
\<close>

definition BLK_DRIVER_FEATURE_SUPPORT :: "64 word" where
  "BLK_DRIVER_FEATURE_SUPPORT = VIRTIO_F_VERSION_1"

definition blk_dev_error ::
  "32 word \<Rightarrow> virtio_device \<Rightarrow> machine \<Rightarrow> (32 word \<times> virtio_device \<times> machine) option" where
  "blk_dev_error status dev m =
     Some (0, dev, virtio_set_status dev (status OR VIRTIO_STAT_FAILED) m)"

definition virtioblk_init ::
  "virtio_device \<Rightarrow> machine \<Rightarrow> (32 word \<times> virtio_device \<times> machine) option" where
  "virtioblk_init dev m0 =
    (let status0 = VIRTIO_STAT_ACKNOWLEDGE;
         m1 = virtio_reset_device dev m0;
         m2 = virtio_set_status dev status0 m1;
         status1 = status0 OR VIRTIO_STAT_DRIVER;
         m3 = virtio_set_status dev status1 m2;
         (failed, status2, dev1, m4) =
           (if features dev AND VIRTIO_F_VERSION_1 \<noteq> 0 then
              (let (r, d, ma) = virtio_negotiate_guest_features dev BLK_DRIVER_FEATURE_SUPPORT m3 in
               if r \<noteq> 0 then (True, status1, d, ma)
               else (let (st, mb) = virtio_get_status d ma in (False, st, d, mb)))
            else (False, status1, dev, virtio_set_guest_features dev VIRTIO_BLK_F_BLK_SIZE m3))
     in
     if failed then blk_dev_error status2 dev1 m4
     else
      (case virtio_queue_init_vq dev1 0 m4 of
         None \<Rightarrow> None
       | Some (ok, dev2, m5) \<Rightarrow>
           if ok then
             (let status3 = status2 OR VIRTIO_STAT_DRIVER_OK;
                  m6 = virtio_set_status dev2 status3 m5;
                  (feat, m7) = virtio_get_host_features dev2 m6
              in if feat AND VIRTIO_BLK_F_BLK_SIZE \<noteq> 0
                 then (let (c, m8) = virtio_get_config dev2 20 4 m7 in Some (ucast c, dev2, m8))
                 else Some (DEFAULT_SECTOR_SIZE, dev2, m7))
           else blk_dev_error status2 dev2 m5))"

subsection \<open>The network driver\<close>

text \<open>
  \<^verbatim>\<open>struct virtio_net\<close>: the device structure \<^verbatim>\<open>vdev\<close> and the fields \<^verbatim>\<open>running\<close> and
  \<^verbatim>\<open>mac_addr\<close> of its \<^verbatim>\<open>driver\<close>.
\<close>

record virtio_net =
  vdev :: virtio_device
  running :: "32 word"
  mac_addr :: "nat \<Rightarrow> 8 word"

definition NET_DRIVER_FEATURE_SUPPORT :: "64 word" where
  "NET_DRIVER_FEATURE_SUPPORT = VIRTIO_NET_F_MAC OR VIRTIO_F_VERSION_1"

text \<open>
  \<^verbatim>\<open>virtionet_init_mmio\<close> (the build defines \<^verbatim>\<open>VIRTIO_USE_MMIO\<close>): \<open>None\<close> is a NULL \<^verbatim>\<open>dev\<close>.
\<close>

definition virtionet_init_mmio ::
  "virtio_net \<Rightarrow> virtio_device option \<Rightarrow> machine \<Rightarrow> 32 word \<times> virtio_net \<times> machine" where
  "virtionet_init_mmio vnet dev m0 =
     (case dev of
        None \<Rightarrow> (- 1, vnet, m0)
      | Some d \<Rightarrow>
          (let vnet1 = vnet\<lparr>vdev := d\<rparr>;
               m1 = virtio_reset_device (vdev vnet1) m0;
               m2 = virtio_set_status (vdev vnet1) VIRTIO_STAT_ACKNOWLEDGE m1
           in (0, vnet1, m2)))"

text \<open>
  One round of the loop of \<^verbatim>\<open>virtionet_init\<close> that prepares the receive queue: the offset
  \<^verbatim>\<open>i * (BUFFER_ENTRY_SIZE+net_hdr_size)\<close> is an \<^verbatim>\<open>unsigned int\<close>.
\<close>

definition rx_prepare :: "nat \<Rightarrow> virtio_device \<times> machine \<Rightarrow> virtio_device \<times> machine" where
  "rx_prepare i = (\<lambda>(dev, m).
     (let a = buf_mem (vq dev VQ_RX) + ucast ((word_of_nat i :: 32 word) * (BUFFER_ENTRY_SIZE + net_hdr_size m));
          ident = (word_of_nat i :: 32 word) * 2;
          s1 = virtio_fill_desc VQ_RX (unat ident) (features dev) a (net_hdr_size m)
                 (VRING_DESC_F_NEXT OR VRING_DESC_F_WRITE) (ucast (ident + 1)) (dev, m);
          s2 = virtio_fill_desc VQ_RX (unat (ident + 1)) (features dev) (a + ucast (net_hdr_size m))
                 BUFFER_ENTRY_SIZE VRING_DESC_F_WRITE 0 s1
      in store_avail_ring VQ_RX i (virtio_cpu_to_modern16 (big_endian m) dev (ucast ident)) s2))"

definition net_dev_error ::
  "32 word \<Rightarrow> virtio_net \<Rightarrow> machine \<Rightarrow> (32 word \<times> virtio_net \<times> machine) option" where
  "net_dev_error status vnet m =
     Some (- 1, vnet, virtio_set_status (vdev vnet) (status OR VIRTIO_STAT_FAILED) m)"

text \<open>
  \<^verbatim>\<open>virtionet_init\<close>. The sizes of the two header structures are 12 and 10 bytes; the loop
  over \<^verbatim>\<open>i < queue_size / 2\<close> is a fold over the indices; \<^verbatim>\<open>sizeof(driver->mac_addr)\<close> is 6.
  The straight-line end of the function, from the comment \<^verbatim>\<open>Prepare receive buffer queue\<close>
  to \<^verbatim>\<open>return 0\<close>, is \<open>virtionet_init_queues\<close>.
\<close>

definition set_buf_mem :: "nat \<Rightarrow> 64 word \<times> 64 word \<Rightarrow> virtio_device \<Rightarrow> virtio_device" where
  "set_buf_mem q b dev = dev\<lparr>vq := (vq dev)(q := (vq dev q)\<lparr>buf_mem := fst b, pa := snd b\<rparr>)\<rparr>"

definition read_mac :: "nat \<Rightarrow> virtio_net \<times> machine \<Rightarrow> virtio_net \<times> machine" where
  "read_mac i = (\<lambda>(vnet, m).
     (let (c, m') = virtio_get_config (vdev vnet) i 1 m
      in (vnet\<lparr>mac_addr := (mac_addr vnet)(i := ucast c)\<rparr>, m')))"

definition virtionet_init_queues ::
  "32 word \<Rightarrow> 16 word \<Rightarrow> virtio_net \<Rightarrow> virtio_device \<Rightarrow> machine
    \<Rightarrow> 32 word \<times> virtio_net \<times> machine" where
  "virtionet_init_queues status1 queue_size vnet d5 m7 =
     (let be = big_endian m7;
          s1 = fold rx_prepare [0 ..< unat queue_size div 2] (d5, m7);
          s2 = sync s1;
          s3 = store_avail_flags VQ_RX (virtio_cpu_to_modern16 be d5 0) s2;
          (d6, m8) = store_avail_idx VQ_RX (virtio_cpu_to_modern16 be d5 (queue_size div 2)) s3;
          m9 = m8\<lparr>last_rx_idx := virtio_modern16_to_cpu be d5 (used_idx (vq d6 VQ_RX))\<rparr>;
          s4 = store_avail_flags VQ_TX (virtio_cpu_to_modern16 be d5 VRING_AVAIL_F_NO_INTERRUPT)
                 (d6, m9);
          (d7, m10) = store_avail_idx VQ_TX 0 s4;
          status2 = status1 OR VIRTIO_STAT_DRIVER_OK OR VIRTIO_STAT_FEATURES_OK;
          m11 = virtio_set_status d7 status2 m10;
          m12 = virtio_queue_ready d7 VQ_RX m11;
          m13 = virtio_queue_notify d7 VQ_RX m12;
          (vnet', m14) = fold read_mac [0 ..< 6] (vnet\<lparr>vdev := d7, running := 1\<rparr>, m13)
      in (0, vnet', m14))"

definition virtionet_init ::
  "virtio_net \<Rightarrow> machine \<Rightarrow> (32 word \<times> virtio_net \<times> machine) option" where
  "virtionet_init vnet m0 =
    (if running vnet \<noteq> 0 then Some (0, vnet, m0)
     else
      let status0 = VIRTIO_STAT_ACKNOWLEDGE OR VIRTIO_STAT_DRIVER;
          m1 = virtio_set_status (vdev vnet) status0 m0;
          (failed, status1, d1, m2) =
            (if features (vdev vnet) AND VIRTIO_F_VERSION_1 \<noteq> 0 then
               (let (r, d, ma) = virtio_negotiate_guest_features (vdev vnet)
                                   NET_DRIVER_FEATURE_SUPPORT m1 in
                if r \<noteq> 0 then (True, status0, d, ma)
                else (let (st, mb) = virtio_get_status d (ma\<lparr>net_hdr_size := 12\<rparr>)
                      in (False, st, d, mb)))
             else (False, status0, vdev vnet,
                   virtio_set_guest_features (vdev vnet) 0 (m1\<lparr>net_hdr_size := 10\<rparr>)))
      in
      if failed then net_dev_error status1 (vnet\<lparr>vdev := d1\<rparr>) m2
      else
       (case virtio_queue_init_vq d1 VQ_RX m2 of
          None \<Rightarrow> None
        | Some (rx_ok, d2, m3) \<Rightarrow>
       (case virtio_queue_init_vq d2 VQ_TX m3 of
          None \<Rightarrow> None
        | Some (tx_ok, d3, m4) \<Rightarrow>
        if rx_ok \<and> tx_ok then
          (let (queue_size, m5) = virtio_get_qsize d3 VQ_RX m4 in
          (case SLOF_alloc_mem_aligned
                  ((BUFFER_ENTRY_SIZE + net_hdr_size m5) * ucast queue_size div 2) 8 m5 of
             None \<Rightarrow> None
           | Some (rx_buf, m6) \<Rightarrow>
          (let d4 = set_buf_mem VQ_RX rx_buf d3 in
           if fst rx_buf = 0 then net_dev_error status1 (vnet\<lparr>vdev := d4\<rparr>) m6
           else
            (case SLOF_alloc_mem_aligned (BUFFER_ENTRY_SIZE * ucast queue_size div 2) 8 m6 of
               None \<Rightarrow> None
             | Some (tx_buf, m7) \<Rightarrow>
            (let d5 = set_buf_mem VQ_TX tx_buf d4 in
             if fst tx_buf = 0 then net_dev_error status1 (vnet\<lparr>vdev := d5\<rparr>) m7
             else Some (virtionet_init_queues status1 queue_size vnet d5 m7))))))
        else
          Some (- 1, vnet\<lparr>vdev := d3\<rparr>,
                virtio_set_status d3
                  (VIRTIO_STAT_ACKNOWLEDGE OR VIRTIO_STAT_DRIVER OR VIRTIO_STAT_FAILED) m4))))"

text \<open>\<^verbatim>\<open>virtionet_term\<close>.\<close>

definition virtionet_term ::
  "virtio_net \<Rightarrow> machine \<Rightarrow> (32 word \<times> virtio_net \<times> machine) option" where
  "virtionet_term vnet m0 =
    (if running vnet = 0 then Some (0, vnet, m0)
     else
      let m1 = virtio_set_status (vdev vnet) VIRTIO_STAT_FAILED m0;
          m2 = virtio_reset_device (vdev vnet) m1
      in (case SLOF_free_mem_aligned (buf_mem (vq (vdev vnet) VQ_RX)) m2 of
            None \<Rightarrow> None
          | Some m3 \<Rightarrow>
             (let d1 = set_buf_mem VQ_RX (0, pa (vq (vdev vnet) VQ_RX)) (vdev vnet);
                  d2 = set_buf_mem VQ_TX (0, pa (vq d1 VQ_TX)) d1;
                  m4 = virtio_queue_term_vq d2 VQ_RX m3;
                  m5 = virtio_queue_term_vq d2 VQ_TX m4
              in Some (0, vnet\<lparr>vdev := d2, running := 0\<rparr>, m5))))"

text \<open>
  \<^verbatim>\<open>virtionet_xmit\<close>. \<^verbatim>\<open>idx\<close> and \<^verbatim>\<open>id\<close> are \<^verbatim>\<open>int\<close>, \<^verbatim>\<open>buf_index\<close> is \<^verbatim>\<open>uint32_t\<close>; the remainders are
  by \<^verbatim>\<open>vq_tx->size\<close> and by \<^verbatim>\<open>vq_tx->size / 2\<close>; \<^verbatim>\<open>len\<close> is compared as a signed number and
  handed to \<^verbatim>\<open>memcpy\<close> as a \<^verbatim>\<open>size_t\<close>.
\<close>

definition virtionet_xmit ::
  "virtio_net \<Rightarrow> 64 word \<Rightarrow> 32 word \<Rightarrow> machine \<Rightarrow> (32 word \<times> virtio_net \<times> machine) option" where
  "virtionet_xmit vnet buf l m0 =
    (if sint l > sint BUFFER_ENTRY_SIZE then Some (0, vnet, m0)
     else
      let d0 = vdev vnet;
          Q = vq_size (vq d0 VQ_TX)
      in
      if Q = 0 \<or> Q div 2 = 0 \<or> sint l < 0 then None
      else
       (let nethdr = (if features d0 AND VIRTIO_F_VERSION_1 \<noteq> 0
                      then nethdr_v1 m0 else nethdr_legacy m0);
            idx = unat (virtio_modern16_to_cpu (big_endian m0) d0 (avail_idx (vq d0 VQ_TX)));
            i = (idx * 2) mod Q;
            buf_index = (word_of_nat ((idx * 2) mod (Q div 2)) :: 32 word);
            buf_addr = buf_mem (vq d0 VQ_TX) + ucast ((buf_index div 2) * BUFFER_ENTRY_SIZE);
            m1 = memcpy buf_addr buf (scast l) m0;
            s1 = virtio_free_desc VQ_TX i (features d0) (d0, m1);
            s2 = virtio_free_desc VQ_TX (i + 1) (features d0) s1;
            s3 = virtio_fill_desc VQ_TX i (features d0) nethdr (net_hdr_size m0)
                   VRING_DESC_F_NEXT (word_of_nat (i + 1)) s2;
            s4 = virtio_fill_desc VQ_TX (i + 1) (features d0) buf_addr l 0 0 s3;
            s5 = store_avail_ring VQ_TX (idx mod Q) (virtio_cpu_to_modern16 (big_endian m0) d0 (word_of_nat i)) s4;
            s6 = sync s5;
            s7 = store_avail_idx VQ_TX (virtio_cpu_to_modern16 (big_endian m0) d0 (word_of_nat (idx + 1))) s6;
            (d1, m2) = sync s7;
            m3 = m2\<lparr>last_tx_idx := used_idx (vq d1 VQ_TX)\<rparr>;
            m4 = virtio_queue_notify d1 VQ_TX m3
        in Some (l, vnet\<lparr>vdev := d1\<rparr>, m4)))"

text \<open>
  \<^verbatim>\<open>virtionet_receive\<close> (the build without CHERI capabilities). \<^verbatim>\<open>id\<close>, \<^verbatim>\<open>idx\<close> and \<^verbatim>\<open>len\<close> are
  \<^verbatim>\<open>uint32_t\<close>, \<^verbatim>\<open>avail_idx\<close> is \<^verbatim>\<open>uint16_t\<close>; the entry written to the available ring is \<^verbatim>\<open>id - 1\<close>
  as \<^verbatim>\<open>uint16_t\<close>. The result carries \<^verbatim>\<open>len\<close> as the returned \<^verbatim>\<open>int\<close>.
\<close>

definition virtionet_receive ::
  "virtio_net \<Rightarrow> 64 word \<Rightarrow> 32 word \<Rightarrow> machine \<Rightarrow> (32 word \<times> virtio_net \<times> machine) option" where
  "virtionet_receive vnet buf maxlen m0 =
    (let d0 = vdev vnet;
         v = vq d0 VQ_RX;
         Q = vq_size v;
         idx = (ucast (virtio_modern16_to_cpu (big_endian m0) d0 (used_idx v)) :: 32 word)
     in
     if ucast (last_rx_idx m0) = idx then Some (0, vnet, m0)
     else if Q = 0 then None
     else
      (let e = used_ring v (unat (last_rx_idx m0) mod Q);
           ident = (word_of_nat (unat (virtio_modern32_to_cpu (big_endian m0) d0 (used_id e) + 1) mod Q) :: 32 word);
           len0 = virtio_modern32_to_cpu (big_endian m0) d0 (used_len e) - net_hdr_size m0;
           len1 = (if len0 > maxlen then maxlen else len0);
           dev_buf_addr = virtio_desc_addr (big_endian m0) d0 VQ_RX (unat ident);
           m1 = memcpy buf dev_buf_addr (ucast len1) m0;
           m2 = m1\<lparr>last_rx_idx := last_rx_idx m1 + 1\<rparr>;
           aidx = virtio_modern16_to_cpu (big_endian m2) d0 (avail_idx v);
           s1 = store_avail_ring VQ_RX (unat aidx mod Q)
                  (virtio_cpu_to_modern16 (big_endian m2) d0 (ucast (ident - 1))) (d0, m2);
           s2 = sync s1;
           (d1, m3) = store_avail_idx VQ_RX (virtio_cpu_to_modern16 (big_endian m2) d0 (aidx + 1)) s2;
           m4 = virtio_queue_notify d1 VQ_RX m3
       in Some (len1, vnet\<lparr>vdev := d1\<rparr>, m4)))"

text \<open>
  \<^verbatim>\<open>virtionet_open\<close>: \<open>fresh\<close> is what \<^verbatim>\<open>SLOF_alloc_mem\<close> (\<^verbatim>\<open>malloc\<close>) returns, \<open>None\<close> for NULL and
  otherwise the new structure with the contents it happens to have. The result is the
  pointer returned, \<open>None\<close> for NULL.
\<close>

definition virtionet_open ::
  "virtio_net option \<Rightarrow> virtio_device option \<Rightarrow> machine \<Rightarrow> (virtio_net option \<times> machine) option" where
  "virtionet_open fresh dev m0 =
    (case fresh of
       None \<Rightarrow> Some (None, m0)
     | Some v0 \<Rightarrow>
        (let vnet = v0\<lparr>running := 0\<rparr>;
             (r, vnet1, m1) = virtionet_init_mmio vnet dev m0
         in if r \<noteq> 0 then Some (None, m1)
            else (case virtionet_init vnet1 m1 of
                    None \<Rightarrow> None
                  | Some (r', vnet2, m2) \<Rightarrow>
                      if r' \<noteq> 0 then Some (None, m2) else Some (Some vnet2, m2))))"

text \<open>
  \<^verbatim>\<open>virtionet_read\<close> and \<^verbatim>\<open>virtionet_write\<close>: \<open>None\<close> is a NULL \<^verbatim>\<open>vnet\<close>, \<open>0\<close> a NULL \<^verbatim>\<open>buf\<close>. The
  structure is returned as the pointer was passed.
\<close>

definition virtionet_read ::
  "virtio_net option \<Rightarrow> 64 word \<Rightarrow> 32 word \<Rightarrow> machine
    \<Rightarrow> (32 word \<times> virtio_net option \<times> machine) option" where
  "virtionet_read vnet buf l m =
    (case vnet of
       None \<Rightarrow> Some (- 1, None, m)
     | Some v \<Rightarrow>
         if buf \<noteq> 0
         then map_option (\<lambda>(r, v', m'). (r, Some v', m')) (virtionet_receive v buf l m)
         else Some (- 1, Some v, m))"

definition virtionet_write ::
  "virtio_net option \<Rightarrow> 64 word \<Rightarrow> 32 word \<Rightarrow> machine
    \<Rightarrow> (32 word \<times> virtio_net option \<times> machine) option" where
  "virtionet_write vnet buf l m =
    (case vnet of
       None \<Rightarrow> Some (- 1, None, m)
     | Some v \<Rightarrow>
         if buf \<noteq> 0
         then map_option (\<lambda>(r, v', m'). (r, Some v', m')) (virtionet_xmit v buf l m)
         else Some (- 1, Some v, m))"

subsection \<open>Observations and test devices\<close>

text \<open>
  The events a call appended to the trace, the status values among them, and whether one
  of these has the FAILED bit.
\<close>

definition new_events :: "machine \<Rightarrow> machine \<Rightarrow> event list" where
  "new_events m m' = drop (length (trace m)) (trace m')"

fun status_writes :: "event list \<Rightarrow> 32 word list" where
  "status_writes [] = []"
| "status_writes (Set_Status v # es) = v # status_writes es"
| "status_writes (e # es) = status_writes es"

definition wrote_failed :: "event list \<Rightarrow> bool" where
  "wrote_failed es = list_ex (\<lambda>v. v AND VIRTIO_STAT_FAILED \<noteq> 0) (status_writes es)"


definition blk_queue_setup_fails :: "machine \<Rightarrow> bool" where
  "blk_queue_setup_fails m =
     (qsize m 0 = 0 \<or> (case slof_cma m of Some ((va, p) # bs) \<Rightarrow> va = 0 | _ \<Rightarrow> True))"


text \<open>
  What \<^verbatim>\<open>virtioblk_transfer\<close> computes before it touches the queue: the block size it reads,
  whether the request passes the capacity and the block-size check on a queue that has
  a size, the local \<^verbatim>\<open>avail_idx\<close> and the head \<^verbatim>\<open>id\<close> of the chain.
\<close>

definition blk_size_cfg :: "machine \<Rightarrow> 32 word" where
  "blk_size_cfg m = ucast (config m 20 4)"

definition blk_accepted :: "virtio_device \<Rightarrow> 64 word \<Rightarrow> 64 word \<Rightarrow> machine \<Rightarrow> bool" where
  "blk_accepted dev blocknum cnt m =
     (\<not> blocknum + cnt - 1 > config m 0 8
      \<and> c_rem (sint (blk_size_cfg m)) (sint DEFAULT_SECTOR_SIZE) = 0
      \<and> vq_size (vq dev 0) \<noteq> 0)"

definition blk_avail_idx :: "virtio_device \<Rightarrow> machine \<Rightarrow> 16 word" where
  "blk_avail_idx dev m =
     word_of_nat (unat (virtio_modern16_to_cpu (big_endian m) dev (avail_idx (vq dev 0))) mod vq_size (vq dev 0))"

definition blk_head :: "virtio_device \<Rightarrow> machine \<Rightarrow> nat" where
  "blk_head dev m = (unat (blk_avail_idx dev m) * 3) mod vq_size (vq dev 0)"

text \<open>
  What \<^verbatim>\<open>virtionet_xmit\<close> computes first: whether the packet is submitted (it is not too
  big, its length is not negative and half the queue size is not zero), \<^verbatim>\<open>idx\<close> and the
  head \<^verbatim>\<open>id\<close> of the chain.
\<close>

definition xmit_submits :: "virtio_net \<Rightarrow> 32 word \<Rightarrow> bool" where
  "xmit_submits vnet l =
     (\<not> sint l > sint BUFFER_ENTRY_SIZE \<and> \<not> sint l < 0
      \<and> vq_size (vq (vdev vnet) VQ_TX) div 2 \<noteq> 0)"

definition tx_idx :: "virtio_net \<Rightarrow> machine \<Rightarrow> 16 word" where
  "tx_idx vnet m =
     virtio_modern16_to_cpu (big_endian m) (vdev vnet) (avail_idx (vq (vdev vnet) VQ_TX))"

definition tx_head :: "virtio_net \<Rightarrow> machine \<Rightarrow> nat" where
  "tx_head vnet m = (unat (tx_idx vnet m) * 2) mod vq_size (vq (vdev vnet) VQ_TX)"

text \<open>
  What \<^verbatim>\<open>virtionet_receive\<close> computes first: whether a used entry is pending on a queue
  that has a size, the \<^verbatim>\<open>id\<close> field of that entry, the number of the descriptor the payload
  is read from, the entry written back to the available ring, the length copied, and
  \<^verbatim>\<open>avail_idx\<close>.
\<close>

definition rx_pending :: "virtio_net \<Rightarrow> machine \<Rightarrow> bool" where
  "rx_pending vnet m =
     ((ucast (last_rx_idx m) :: 32 word)
        \<noteq> ucast (virtio_modern16_to_cpu (big_endian m) (vdev vnet) (used_idx (vq (vdev vnet) VQ_RX)))
      \<and> vq_size (vq (vdev vnet) VQ_RX) \<noteq> 0)"

definition rx_id_raw :: "virtio_net \<Rightarrow> machine \<Rightarrow> 32 word" where
  "rx_id_raw vnet m =
     virtio_modern32_to_cpu (big_endian m) (vdev vnet)
       (used_id (used_ring (vq (vdev vnet) VQ_RX)
                   (unat (last_rx_idx m) mod vq_size (vq (vdev vnet) VQ_RX))))"

definition rx_data_desc :: "virtio_net \<Rightarrow> machine \<Rightarrow> nat" where
  "rx_data_desc vnet m = unat (rx_id_raw vnet m + 1) mod vq_size (vq (vdev vnet) VQ_RX)"

definition rx_repost_entry :: "virtio_net \<Rightarrow> machine \<Rightarrow> 16 word" where
  "rx_repost_entry vnet m = ucast ((word_of_nat (rx_data_desc vnet m) :: 32 word) - 1)"

definition rx_len :: "virtio_net \<Rightarrow> 32 word \<Rightarrow> machine \<Rightarrow> 32 word" where
  "rx_len vnet maxlen m =
     (let len0 = virtio_modern32_to_cpu (big_endian m) (vdev vnet)
                   (used_len (used_ring (vq (vdev vnet) VQ_RX)
                      (unat (last_rx_idx m) mod vq_size (vq (vdev vnet) VQ_RX))))
                 - net_hdr_size m
      in if len0 > maxlen then maxlen else len0)"

definition rx_avail_idx :: "virtio_net \<Rightarrow> machine \<Rightarrow> 16 word" where
  "rx_avail_idx vnet m =
     virtio_modern16_to_cpu (big_endian m) (vdev vnet) (avail_idx (vq (vdev vnet) VQ_RX))"

text \<open>The bytes of guest memory from an address on.\<close>

definition bytes_at :: "machine \<Rightarrow> 64 word \<Rightarrow> nat \<Rightarrow> 8 word list" where
  "bytes_at m a n = map (\<lambda>k. mem m (a + word_of_nat k)) [0 ..< n]"

text \<open>
  A device as the end-to-end scenarios of the spec fake it: it offers \<open>feat\<close>, keeps
  FEATURES_OK, answers the configuration reads at offsets 0 and 20 with \<open>capacity\<close> and
  \<open>blksz\<close>, has queues of \<open>qs\<close> entries, on a little-endian CPU with eight blocks in the
  arena; and a device structure with zeroed queues of 16 entries whose \<^verbatim>\<open>avail->idx\<close> is
  \<open>aidx\<close>.
\<close>

definition test_machine :: "64 word \<Rightarrow> 64 word \<Rightarrow> 64 word \<Rightarrow> 16 word \<Rightarrow> machine" where
  "test_machine feat capacity blksz qs =
     \<lparr>status_reg = 0, host_features = feat, guest_features = 0, keeps_features_ok = True,
      config = (\<lambda>off sz. if off = 0 then capacity else if off = 20 then blksz else 0),
      qsize = (\<lambda>q. qs),
      slof_cma = Some [(0x10000, 0x10000), (0x20000, 0x20000), (0x30000, 0x30000),
                       (0x40000, 0x40000), (0x50000, 0x50000), (0x60000, 0x60000),
                       (0x70000, 0x70000), (0x80000, 0x80000)],
      mem = (\<lambda>a. 0), big_endian = False, net_hdr_size = 0, last_rx_idx = 0, last_tx_idx = 0,
      nethdr_v1 = 0x100, nethdr_legacy = 0x200, trace = []\<rparr>"

definition test_dev :: "64 word \<Rightarrow> 16 word \<Rightarrow> virtio_device" where
  "test_dev feat aidx = \<lparr>features = feat, vq = (\<lambda>q. (zero_vq 16)\<lparr>avail_idx := aidx\<rparr>)\<rparr>"

definition test_data :: virtio_blk_req_data where
  "test_data = \<lparr>blkhdr = \<lparr>req_type = 0, sector = 0\<rparr>, blkhdr_pa = 0x5000, status_pa = 0x5010\<rparr>"

text \<open>
  A network instance as \<^verbatim>\<open>malloc\<close> may return it, and a running legacy instance whose
  device has completed the receive chain headed by descriptor 2 with a frame of 64
  bytes: the used ring holds \<open>{id: 2, len: 10 + 64}\<close>, eight chains are posted, and the data
  descriptor 3 points at \<open>0x10610\<close>.
\<close>

definition test_fresh :: virtio_net where
  "test_fresh = \<lparr>vdev = test_dev 0 0, running = 7, mac_addr = (\<lambda>i. 0)\<rparr>"

definition test_rx_vnet :: virtio_net where
  "test_rx_vnet =
     \<lparr>vdev = \<lparr>features = 0,
               vq = (\<lambda>q. (zero_vq 16)\<lparr>
                  desc := (\<lambda>i. \<lparr>addr = 0x10000 + 0x200 * word_of_nat i + (if odd i then 0x10 else 0),
                                 len = (if odd i then 1526 else 10),
                                 flags = (if odd i then 2 else 3),
                                 next = (if odd i then 0 else word_of_nat i + 1)\<rparr>),
                  avail_idx := 8, used_idx := 1,
                  used_ring := (\<lambda>i. \<lparr>used_id = 2, used_len = 74\<rparr>),
                  buf_mem := 0x10000\<rparr>)\<rparr>,
      running = 1, mac_addr = (\<lambda>i. 0)\<rparr>"

definition test_rx_machine :: machine where
  "test_rx_machine = (test_machine 0 0 0 16)\<lparr>net_hdr_size := 10, mem := (\<lambda>a. ucast a)\<rparr>"

section \<open>Accepted block requests\<close>

text \<open>The definitions that the proofs unfold together.\<close>

lemmas const_defs =
  VIRTIO_STAT_ACKNOWLEDGE_def VIRTIO_STAT_DRIVER_def VIRTIO_STAT_DRIVER_OK_def
  VIRTIO_STAT_FEATURES_OK_def VIRTIO_STAT_FAILED_def VIRTIO_F_VERSION_1_def
  VIRTIO_BLK_F_BLK_SIZE_def VIRTIO_NET_F_MAC_def VRING_DESC_F_NEXT_def VRING_DESC_F_WRITE_def
  VRING_AVAIL_F_NO_INTERRUPT_def VQ_RX_def VQ_TX_def BUFFER_ENTRY_SIZE_def
  DEFAULT_SECTOR_SIZE_def VIRTIO_BLK_T_IN_def VIRTIO_BLK_T_OUT_def VIRTIO_BLK_T_FLUSH_def

lemmas shim_defs =
  emit_def virtio_get_config_def virtio_queue_notify_def virtio_set_status_def
  virtio_get_status_def virtio_reset_device_def virtio_get_host_features_def
  virtio_set_guest_features_def virtio_negotiate_guest_features_def virtio_get_qsize_def
  virtio_queue_ready_def virtio_queue_term_vq_def virtio_free_desc_def
  SLOF_alloc_mem_aligned_def SLOF_free_mem_aligned_def virtio_queue_init_vq_def

lemmas ring_defs =
  virtio_fill_desc_def store_avail_ring_def store_avail_idx_def store_avail_flags_def
  sync_def mb_def

text \<open>Widening an unsigned 32-bit value keeps it.\<close>

lemma ucast_32_64_unat: "unat (ucast (x :: 32 word) :: 64 word) = unat x"
proof -
  have "unat x < 2 ^ 32" using unsigned_less [of x, where 'a = nat] by simp
  then show ?thesis by (simp add: unsigned_ucast_eq take_bit_nat_eq_self)
qed

text \<open>
  An accepted request: the value returned, the descriptor table, the available ring, the
  request header and the events, in full.
\<close>

lemma blk_transfer_accepted:
  assumes "blk_accepted dev blocknum cnt m"
  shows "virtioblk_transfer dev data buf blocknum cnt type m =
     Some (0,
       dev\<lparr>vq := (vq dev)(0 := (vq dev 0)
         \<lparr>desc := (desc (vq dev 0))
            (blk_head dev m :=
               desc_to_dev (big_endian m) (features dev)
                 \<lparr>addr = blkhdr_pa data, len = 16, flags = VRING_DESC_F_NEXT,
                  next = word_of_nat (blk_head dev m + 1)\<rparr>,
             blk_head dev m + 1 :=
               desc_to_dev (big_endian m) (features dev)
                 \<lparr>addr = buf, len = ucast (cnt * scast (blk_size_cfg m)),
                  flags = VRING_DESC_F_NEXT OR (if type AND 1 \<noteq> 0 then 0 else VRING_DESC_F_WRITE),
                  next = word_of_nat (blk_head dev m + 2)\<rparr>,
             blk_head dev m + 2 :=
               desc_to_dev (big_endian m) (features dev)
                 \<lparr>addr = status_pa data, len = 1, flags = VRING_DESC_F_WRITE, next = 0\<rparr>),
          avail_ring := (avail_ring (vq dev 0))
            (unat (blk_avail_idx dev m) mod vq_size (vq dev 0) :=
               virtio_cpu_to_modern16 (big_endian m) dev (word_of_nat (blk_head dev m))),
          avail_idx := virtio_cpu_to_modern16 (big_endian m) dev (blk_avail_idx dev m + 1)\<rparr>)\<rparr>,
       data\<lparr>blkhdr := fill_blk_hdr (big_endian m) (blkhdr data) (features dev \<noteq> 0) type 1
                 (ucast ((blocknum * scast (blk_size_cfg m)) div 512))\<rparr>,
       m\<lparr>trace := trace m @
             [Get_Config 0 8, Get_Config 20 4,
              Store_Desc 0 (blk_head dev m)
                (desc_to_dev (big_endian m) (features dev)
                   \<lparr>addr = blkhdr_pa data, len = 16, flags = VRING_DESC_F_NEXT,
                    next = word_of_nat (blk_head dev m + 1)\<rparr>),
              Store_Desc 0 (blk_head dev m + 1)
                (desc_to_dev (big_endian m) (features dev)
                   \<lparr>addr = buf, len = ucast (cnt * scast (blk_size_cfg m)),
                    flags = VRING_DESC_F_NEXT OR (if type AND 1 \<noteq> 0 then 0 else VRING_DESC_F_WRITE),
                    next = word_of_nat (blk_head dev m + 2)\<rparr>),
              Store_Desc 0 (blk_head dev m + 2)
                (desc_to_dev (big_endian m) (features dev)
                   \<lparr>addr = status_pa data, len = 1, flags = VRING_DESC_F_WRITE, next = 0\<rparr>),
              Store_Avail_Ring 0 (unat (blk_avail_idx dev m) mod vq_size (vq dev 0))
                (virtio_cpu_to_modern16 (big_endian m) dev (word_of_nat (blk_head dev m))),
              Barrier,
              Store_Avail_Idx 0 (virtio_cpu_to_modern16 (big_endian m) dev (blk_avail_idx dev m + 1)),
              Queue_Notify 0]\<rparr>)"
  using assms
  unfolding blk_accepted_def virtioblk_transfer_def blk_head_def blk_avail_idx_def
    blk_size_cfg_def
  by (simp add: shim_defs ring_defs Let_def DEFAULT_SECTOR_SIZE_def)

lemma test_blk_accepted:
  "blk_accepted (test_dev feat aidx) 0 1 (test_machine hf 2048 512 qs)"
  by (simp add: blk_accepted_def blk_size_cfg_def test_machine_def test_dev_def zero_vq_def
        c_rem_def DEFAULT_SECTOR_SIZE_def)

lemmas test_defs =
  test_dev_def test_machine_def test_data_def zero_vq_def blk_head_def blk_avail_idx_def
  blk_size_cfg_def virtio_cpu_to_modern16_def virtio_modern16_to_cpu_def is_modern_def
  desc_to_dev_def

section \<open>The capacity check\<close>

text \<open>
  A call of \<^verbatim>\<open>virtioblk_transfer\<close> whose \<^verbatim>\<open>blocknum + cnt - 1\<close>, the unsigned 64-bit sum that
  the code compares, exceeds the capacity returns 0 without submitting: the device
  structure with its descriptor table, available ring and \<^verbatim>\<open>avail->idx\<close> and the request
  header come back as they were, and the only access to the device is the read of the
  capacity from its configuration.
\<close>

lemma transfer_out_of_range:
  assumes "blocknum + cnt - 1 > config m 0 8"
  shows "virtioblk_transfer dev data buf blocknum cnt type m
           = Some (0, dev, data, m\<lparr>trace := trace m @ [Get_Config 0 8]\<rparr>)"
  using assms by (simp add: virtioblk_transfer_def virtio_get_config_def emit_def)

text \<open>The out-of-range read of the spec: capacity 10, first block 8, 5 blocks.\<close>

lemma transfer_out_of_range_scenario:
  "virtioblk_transfer (test_dev 0 0) test_data 0x6000 8 5 VIRTIO_BLK_T_IN (test_machine 0 10 512 16)
     = Some (0, test_dev 0 0, test_data,
         (test_machine 0 10 512 16)\<lparr>trace := trace (test_machine 0 10 512 16) @ [Get_Config 0 8]\<rparr>)"
proof -
  have h: "config (test_machine 0 10 512 16) 0 8 < 8 + 5 - 1"
    by (simp add: test_machine_def)
  show ?thesis
    using transfer_out_of_range [OF h] by simp
qed

text \<open>
  Where the sum does not wrap around \<open>2 ^ 64\<close> the comparison is that of the numbers: a
  request for at least one block whose last block lies beyond the capacity is rejected.
\<close>

lemma transfer_out_of_range_no_wrap:
  assumes cnt: "0 < unat cnt"
      and no_wrap: "unat blocknum + unat cnt - 1 < 2 ^ 64"
      and beyond: "unat (config m 0 8) < unat blocknum + unat cnt - 1"
  shows "virtioblk_transfer dev data buf blocknum cnt type m
           = Some (0, dev, data, m\<lparr>trace := trace m @ [Get_Config 0 8]\<rparr>)"
proof -
  have "blocknum + cnt - 1 = word_of_nat (unat blocknum + unat cnt - 1)"
    using cnt by (simp add: of_nat_diff)
  then have "unat (blocknum + cnt - 1) = unat blocknum + unat cnt - 1"
    using no_wrap by (simp add: unat_of_nat)
  with beyond have "config m 0 8 < blocknum + cnt - 1"
    by (simp add: word_less_nat_alt)
  then show ?thesis
    by (simp add: virtioblk_transfer_def virtio_get_config_def emit_def)
qed

text \<open>
  Where the sum wraps, the check lets the request through: for the last block number of
  the type and two blocks, \<^verbatim>\<open>blocknum + cnt - 1\<close> is 0.
\<close>

lemma test_wrap_accepted:
  "blk_accepted (test_dev 0 0) 0xFFFFFFFFFFFFFFFF 2 (test_machine 0 2048 512 16)"
  by (simp add: blk_accepted_def blk_size_cfg_def test_machine_def test_dev_def zero_vq_def
        c_rem_def DEFAULT_SECTOR_SIZE_def)

text \<open>
  C5. The claim fails where the sum wraps. The check of \<^verbatim>\<open>virtioblk_transfer\<close>, which its
  comment gives as \<^verbatim>\<open>Check whether request is within disk capacity\<close>, adds in \<^verbatim>\<open>uint64_t\<close>: a
  read of 2 blocks from block \<open>2 ^ 64 - 1\<close> of a device with 2048 blocks of 512 bytes has its
  last block beyond the capacity, and it is submitted all the same. The call writes the
  three descriptors of the chain, the entry 0 of the available ring and \<^verbatim>\<open>avail->idx\<close> = 1,
  and notifies the device.
\<close>

theorem transfer_wrapped_sum_submitted:
  "unat (config (test_machine 0 2048 512 16) 0 8)
     < unat (0xFFFFFFFFFFFFFFFF :: 64 word) + unat (2 :: 64 word) - 1
   \<and> map_option (\<lambda>(r, d, dt, m). (r, avail_idx (vq d 0), avail_ring (vq d 0) 0,
                    map (desc (vq d 0)) [0, 1, 2], trace m))
       (virtioblk_transfer (test_dev 0 0) test_data 0x6000 0xFFFFFFFFFFFFFFFF 2 VIRTIO_BLK_T_IN
          (test_machine 0 2048 512 16))
     = Some (0, 1, 0,
         [\<lparr>addr = 0x5000, len = 16, flags = 1, next = 1\<rparr>,
          \<lparr>addr = 0x6000, len = 1024, flags = 3, next = 2\<rparr>,
          \<lparr>addr = 0x5010, len = 1, flags = 2, next = 0\<rparr>],
         [Get_Config 0 8, Get_Config 20 4,
          Store_Desc 0 0 \<lparr>addr = 0x5000, len = 16, flags = 1, next = 1\<rparr>,
          Store_Desc 0 1 \<lparr>addr = 0x6000, len = 1024, flags = 3, next = 2\<rparr>,
          Store_Desc 0 2 \<lparr>addr = 0x5010, len = 1, flags = 2, next = 0\<rparr>,
          Store_Avail_Ring 0 0 0, Barrier, Store_Avail_Idx 0 1, Queue_Notify 0])"
  by (subst blk_transfer_accepted [OF test_wrap_accepted])
     (simp add: test_defs VIRTIO_BLK_T_IN_def VRING_DESC_F_NEXT_def VRING_DESC_F_WRITE_def)

section \<open>Publishing a request\<close>

text \<open>
  The index that \<^verbatim>\<open>virtioblk_transfer\<close> increments is \<^verbatim>\<open>avail->idx\<close> reduced modulo the
  queue size, so what it stores into \<^verbatim>\<open>avail->idx\<close> is at most the queue size;
  \<^verbatim>\<open>virtionet_xmit\<close> increments the 16-bit value itself, writes the head id to
  \<^verbatim>\<open>ring[idx % size]\<close> and issues a barrier on each side of the store to \<^verbatim>\<open>avail->idx\<close>.
\<close>

lemma blk_avail_idx_reduced:
  assumes "vq_size (vq dev 0) \<noteq> 0"
  shows "unat (blk_avail_idx dev m)
           = unat (virtio_modern16_to_cpu (big_endian m) dev (avail_idx (vq dev 0)))
               mod vq_size (vq dev 0)"
proof -
  let ?x = "virtio_modern16_to_cpu (big_endian m) dev (avail_idx (vq dev 0))"
  have "unat ?x mod vq_size (vq dev 0) \<le> unat ?x" by simp
  moreover have "unat ?x < 2 ^ 16" using unsigned_less [of ?x, where 'a = nat] by simp
  ultimately have "unat ?x mod vq_size (vq dev 0) < 2 ^ 16" by (rule le_less_trans)
  then show ?thesis by (simp add: blk_avail_idx_def unat_of_nat)
qed

lemma xmit_publishes:
  assumes "xmit_submits vnet l"
  shows "\<exists>vnet' m'.
           virtionet_xmit vnet buf l m = Some (l, vnet', m')
         \<and> drop 4 (new_events m m') =
             [Store_Avail_Ring VQ_TX (unat (tx_idx vnet m) mod vq_size (vq (vdev vnet) VQ_TX))
                (virtio_cpu_to_modern16 (big_endian m) (vdev vnet) (word_of_nat (tx_head vnet m))),
              Barrier,
              Store_Avail_Idx VQ_TX
                (virtio_cpu_to_modern16 (big_endian m) (vdev vnet) (tx_idx vnet m + 1)),
              Barrier,
              Queue_Notify VQ_TX]
         \<and> avail_ring (vq (vdev vnet') VQ_TX) (unat (tx_idx vnet m) mod vq_size (vq (vdev vnet) VQ_TX))
             = virtio_cpu_to_modern16 (big_endian m) (vdev vnet) (word_of_nat (tx_head vnet m))
         \<and> avail_idx (vq (vdev vnet') VQ_TX)
             = virtio_cpu_to_modern16 (big_endian m) (vdev vnet) (tx_idx vnet m + 1)"
proof -
  from assms have "vq_size (vq (vdev vnet) VQ_TX) \<noteq> 0"
    by (auto simp: xmit_submits_def)
  with assms show ?thesis
    unfolding xmit_submits_def virtionet_xmit_def new_events_def tx_idx_def tx_head_def
    by (simp add: shim_defs ring_defs memcpy_def Let_def add.commute)
qed

text \<open>
  C1. The claim holds for \<^verbatim>\<open>virtionet_xmit\<close> and fails for \<^verbatim>\<open>virtioblk_transfer\<close>: on a queue
  of 16 entries whose \<^verbatim>\<open>avail->idx\<close> is 16, an accepted block request writes the head id 0
  to \<^verbatim>\<open>ring[0]\<close> and then stores 1 into \<^verbatim>\<open>avail->idx\<close>, where the old value incremented
  modulo \<open>2 ^ 16\<close> is 17.
\<close>

theorem blk_transfer_avail_idx_reduced:
  "map_option (\<lambda>(r, d, dt, m). (avail_ring (vq d 0) 0, avail_idx (vq d 0)))
     (virtioblk_transfer (test_dev 0 16) test_data 0x6000 0 1 VIRTIO_BLK_T_IN
        (test_machine 0 2048 512 16))
   = Some (0, 1)"
  by (subst blk_transfer_accepted [OF test_blk_accepted]) (simp add: test_defs)

text \<open>
  C2. The claim holds for \<^verbatim>\<open>virtionet_xmit\<close> and fails for \<^verbatim>\<open>virtioblk_transfer\<close>, which
  issues \<^verbatim>\<open>mb()\<close> once: the events of an accepted block request on a fresh queue end with the
  store to the available ring, the barrier, the store to \<^verbatim>\<open>avail->idx\<close> and the
  notification, with no barrier between the last two.
\<close>

theorem blk_transfer_no_second_barrier:
  "map_option (\<lambda>(r, d, dt, m). new_events (test_machine 0 2048 512 16) m)
     (virtioblk_transfer (test_dev 0 0) test_data 0x6000 0 1 VIRTIO_BLK_T_IN
        (test_machine 0 2048 512 16))
   = Some [Get_Config 0 8, Get_Config 20 4,
           Store_Desc 0 0 \<lparr>addr = 0x5000, len = 16, flags = 1, next = 1\<rparr>,
           Store_Desc 0 1 \<lparr>addr = 0x6000, len = 512, flags = 3, next = 2\<rparr>,
           Store_Desc 0 2 \<lparr>addr = 0x5010, len = 1, flags = 2, next = 0\<rparr>,
           Store_Avail_Ring 0 0 0, Barrier, Store_Avail_Idx 0 1, Queue_Notify 0]"
  by (subst blk_transfer_accepted [OF test_blk_accepted])
     (simp add: test_defs new_events_def VRING_DESC_F_NEXT_def VRING_DESC_F_WRITE_def
        VIRTIO_BLK_T_IN_def)

section \<open>The request header and the data descriptor\<close>

text \<open>
  On a little-endian CPU the header of an accepted request has the type of the request and
  the low 32 bits of \<^verbatim>\<open>blocknum * blk_size / 512\<close> as its sector. On a big-endian CPU the
  header is byte-swapped whenever \<^verbatim>\<open>dev->features\<close> is not zero, also for a legacy device:
  \<^verbatim>\<open>dev->features\<close> is passed where \<^verbatim>\<open>fill_blk_hdr\<close> expects the \<^verbatim>\<open>bool\<close> \<^verbatim>\<open>is_modern\<close>.
\<close>

lemma blk_hdr_sector_32_bits:
  assumes "blk_accepted dev blocknum cnt m" and "\<not> big_endian m"
  shows "\<exists>dev' data' m'.
           virtioblk_transfer dev data buf blocknum cnt type m = Some (0, dev', data', m')
         \<and> req_type (blkhdr data') = type
         \<and> unat (sector (blkhdr data'))
             = unat (blocknum * scast (blk_size_cfg m) div 512) mod 2 ^ 32"
  using assms(2)
  by (simp add: blk_transfer_accepted [OF assms(1)] fill_blk_hdr_def cpu_to_le32_def
        cpu_to_le64_def ucast_32_64_unat unsigned_ucast_eq take_bit_eq_mod unat_mod_distrib)

lemma blk_hdr_swapped_for_legacy:
  "map_option (\<lambda>(r, d, dt, m). req_type (blkhdr dt))
     (virtioblk_transfer (test_dev VIRTIO_BLK_F_BLK_SIZE 0) test_data 0x6000 0 1 VIRTIO_BLK_T_OUT
        ((test_machine VIRTIO_BLK_F_BLK_SIZE 2048 512 16)\<lparr>big_endian := True\<rparr>))
   = Some 0x1000000
   \<and> \<not> is_modern (features (test_dev VIRTIO_BLK_F_BLK_SIZE 0))"
proof -
  have acc: "blk_accepted (test_dev VIRTIO_BLK_F_BLK_SIZE 0) 0 1
               ((test_machine VIRTIO_BLK_F_BLK_SIZE 2048 512 16)\<lparr>big_endian := True\<rparr>)"
    by (simp add: blk_accepted_def blk_size_cfg_def test_machine_def test_dev_def zero_vq_def
          c_rem_def DEFAULT_SECTOR_SIZE_def)
  show ?thesis
    by (subst blk_transfer_accepted [OF acc])
       (simp add: test_defs fill_blk_hdr_def cpu_to_le32_def bswap32_def
          VIRTIO_BLK_F_BLK_SIZE_def VIRTIO_BLK_T_OUT_def VIRTIO_F_VERSION_1_def)
qed

text \<open>
  C7. \<^verbatim>\<open>fill_blk_hdr\<close> takes the sector as a \<^verbatim>\<open>uint32_t\<close>: for the first block \<open>2 ^ 32\<close> of a
  device with 512-byte blocks the header written has the type of the request and the
  sector 0, where \<^verbatim>\<open>blocknum * blk_size / 512\<close> as an unsigned 64-bit value is \<open>2 ^ 32\<close>.
\<close>

theorem blk_hdr_sector_truncated:
  "map_option (\<lambda>(r, d, dt, m). (req_type (blkhdr dt), sector (blkhdr dt)))
     (virtioblk_transfer (test_dev 0 0) test_data 0x6000 0x100000000 1 VIRTIO_BLK_T_OUT
        (test_machine 0 0x200000000 512 16))
   = Some (VIRTIO_BLK_T_OUT, 0)
   \<and> (0x100000000 * 512 div 512 :: 64 word) = 0x100000000"
proof -
  have acc: "blk_accepted (test_dev 0 0) 0x100000000 1 (test_machine 0 0x200000000 512 16)"
    by (simp add: blk_accepted_def blk_size_cfg_def test_machine_def test_dev_def zero_vq_def
          c_rem_def DEFAULT_SECTOR_SIZE_def)
  show ?thesis
    by (subst blk_transfer_accepted [OF acc]) (simp add: test_defs fill_blk_hdr_def)
qed




section \<open>Initialization\<close>

text \<open>The loops of \<^verbatim>\<open>virtionet_init\<close> write no status and leave the arena alone.\<close>

lemma status_writes_append: "status_writes (xs @ ys) = status_writes xs @ status_writes ys"
  by (induction xs rule: status_writes.induct) simp_all

lemma rx_prepare_machine:
  "snd (rx_prepare i s) = (snd s)\<lparr>trace := trace (snd (rx_prepare i s))\<rparr>"
  by (simp add: rx_prepare_def ring_defs shim_defs Let_def case_prod_unfold)

lemma rx_prepare_status:
  "status_writes (trace (snd (rx_prepare i s))) = status_writes (trace (snd s))"
  by (simp add: rx_prepare_def ring_defs shim_defs Let_def case_prod_unfold status_writes_append)

lemma fold_rx_prepare_machine:
  "snd (fold rx_prepare xs s) = (snd s)\<lparr>trace := trace (snd (fold rx_prepare xs s))\<rparr>"
proof (induction xs arbitrary: s)
  case Nil
  show ?case by simp
next
  case (Cons x xs)
  have "snd (fold rx_prepare (x # xs) s) = snd (fold rx_prepare xs (rx_prepare x s))" by simp
  also have "\<dots> = (snd (rx_prepare x s))\<lparr>trace := trace (snd (fold rx_prepare xs (rx_prepare x s)))\<rparr>"
    by (rule Cons.IH)
  also have "\<dots> = (snd s)\<lparr>trace := trace (snd (fold rx_prepare xs (rx_prepare x s)))\<rparr>"
    by (subst rx_prepare_machine) simp
  finally show ?case by simp
qed

lemma fold_rx_prepare_status:
  "status_writes (trace (snd (fold rx_prepare xs s))) = status_writes (trace (snd s))"
  by (induction xs arbitrary: s) (simp_all add: rx_prepare_status)

lemma fold_rx_prepare_fields:
  "slof_cma (snd (fold rx_prepare xs s)) = slof_cma (snd s)"
  "qsize (snd (fold rx_prepare xs s)) = qsize (snd s)"
  by (subst fold_rx_prepare_machine, simp)+

lemma read_mac_pair:
  "read_mac i (v, m) =
     (v\<lparr>mac_addr := (mac_addr v)(i := ucast (config m i 1))\<rparr>,
      m\<lparr>trace := trace m @ [Get_Config i 1]\<rparr>)"
  by (simp add: read_mac_def shim_defs)

lemma fold_read_mac:
  "fold read_mac xs (v, m) =
     (v\<lparr>mac_addr := fold (\<lambda>i f. f(i := ucast (config m i 1))) xs (mac_addr v)\<rparr>,
      m\<lparr>trace := trace m @ map (\<lambda>i. Get_Config i 1) xs\<rparr>)"
proof (induction xs arbitrary: v m)
  case Nil
  show ?case by simp
next
  case (Cons x xs)
  show ?case by (simp add: read_mac_pair Cons.IH)
qed

lemma status_writes_get_config: "status_writes (map (\<lambda>i. Get_Config i n) xs) = []"
  by (induction xs) simp_all

lemma virtionet_init_queues_result:
  "\<exists>v' m'. virtionet_init_queues status1 queue_size vnet d5 m7 = (0, v', m')
      \<and> running v' = 1
      \<and> slof_cma m' = slof_cma m7 \<and> qsize m' = qsize m7
      \<and> status_writes (trace m') =
            status_writes (trace m7)
              @ [status1 OR VIRTIO_STAT_DRIVER_OK OR VIRTIO_STAT_FEATURES_OK]"
proof -
  obtain dF mF where F: "fold rx_prepare [0 ..< unat queue_size div 2] (d5, m7) = (dF, mF)"
    by (cases "fold rx_prepare [0 ..< unat queue_size div 2] (d5, m7)")
  have mF: "slof_cma mF = slof_cma m7" "qsize mF = qsize m7"
           "status_writes (trace mF) = status_writes (trace m7)"
    using fold_rx_prepare_fields [of "[0 ..< unat queue_size div 2]" "(d5, m7)"]
          fold_rx_prepare_status [of "[0 ..< unat queue_size div 2]" "(d5, m7)"]
    by (simp_all add: F)
  show ?thesis
    unfolding virtionet_init_queues_def
    by (simp add: F mF ring_defs shim_defs Let_def fold_read_mac
          status_writes_append status_writes_get_config)
qed

text \<open>
  A legacy network device with two queues and four blocks in the arena: \<^verbatim>\<open>virtionet_init\<close>
  succeeds, and so does \<^verbatim>\<open>virtionet_open\<close>; the status values written are 3 and 15 after
  the 0 and 1 of \<^verbatim>\<open>virtionet_init_mmio\<close>.
\<close>

lemma legacy_init_succeeds:
  assumes idle: "running vnet = 0"
      and legacy: "features (vdev vnet) AND VIRTIO_F_VERSION_1 = 0"
      and rx: "qsize m VQ_RX \<noteq> 0" and tx: "qsize m VQ_TX \<noteq> 0"
      and arena: "slof_cma m = Some ((a1, p1) # (a2, p2) # (a3, p3) # (a4, p4) # bs)"
      and blocks: "a1 \<noteq> 0" "a2 \<noteq> 0" "a3 \<noteq> 0" "a4 \<noteq> 0"
  shows "\<exists>v' m'. virtionet_init vnet m = Some (0, v', m')
           \<and> running v' = 1
           \<and> slof_cma m' = Some bs \<and> qsize m' = qsize m
           \<and> status_writes (trace m') = status_writes (trace m) @ [3, 15]"
proof -
  define status1 :: "32 word" where "status1 = VIRTIO_STAT_ACKNOWLEDGE OR VIRTIO_STAT_DRIVER"
  define d5 where "d5 = set_buf_mem VQ_TX (a4, p4) (set_buf_mem VQ_RX (a3, p3)
     ((vdev vnet)\<lparr>vq := (vq (vdev vnet))(VQ_RX := zero_vq (unat (qsize m VQ_RX)),
                       VQ_TX := zero_vq (unat (qsize m VQ_TX)))\<rparr>))"
  define m7 where "m7 = (virtio_set_guest_features (vdev vnet) 0
       ((virtio_set_status (vdev vnet) status1 m)\<lparr>net_hdr_size := 10\<rparr>))
     \<lparr>trace := trace m @ [Set_Status 3,
       Set_Guest_Features 0, Get_QSize VQ_RX, Queue_Set_Addresses VQ_RX,
       Get_QSize VQ_TX, Queue_Set_Addresses VQ_TX, Get_QSize VQ_RX],
     slof_cma := Some bs\<rparr>"
  have init_eq: "virtionet_init vnet m =
      Some (virtionet_init_queues status1 (qsize m VQ_RX) vnet d5 m7)"
    using assms
    unfolding virtionet_init_def net_dev_error_def status1_def d5_def m7_def
    by (simp add: shim_defs Let_def set_buf_mem_def
          VIRTIO_STAT_ACKNOWLEDGE_def VIRTIO_STAT_DRIVER_def VQ_RX_def VQ_TX_def)
  obtain v' m' where Q: "virtionet_init_queues status1 (qsize m VQ_RX) vnet d5 m7 = (0, v', m')"
      "running v' = 1" "slof_cma m' = slof_cma m7" "qsize m' = qsize m7"
      "status_writes (trace m') = status_writes (trace m7)
              @ [status1 OR VIRTIO_STAT_DRIVER_OK OR VIRTIO_STAT_FEATURES_OK]"
    using virtionet_init_queues_result by blast
  show ?thesis
    using Q
    by (simp add: init_eq m7_def status1_def status_writes_append shim_defs Let_def
          VIRTIO_STAT_ACKNOWLEDGE_def VIRTIO_STAT_DRIVER_def VIRTIO_STAT_DRIVER_OK_def
          VIRTIO_STAT_FEATURES_OK_def)
qed

lemma legacy_open_succeeds:
  assumes legacy: "features d AND VIRTIO_F_VERSION_1 = 0"
      and rx: "qsize m VQ_RX \<noteq> 0" and tx: "qsize m VQ_TX \<noteq> 0"
      and arena: "slof_cma m = Some ((a1, p1) # (a2, p2) # (a3, p3) # (a4, p4) # bs)"
      and blocks: "a1 \<noteq> 0" "a2 \<noteq> 0" "a3 \<noteq> 0" "a4 \<noteq> 0"
  shows "\<exists>v m'. virtionet_open (Some f) (Some d) m = Some (Some v, m')
           \<and> running v = 1
           \<and> slof_cma m' = Some bs \<and> qsize m' = qsize m
           \<and> status_writes (trace m') = status_writes (trace m) @ [0, 1, 3, 15]"
proof -
  define v1 where "v1 = f\<lparr>running := 0, vdev := d\<rparr>"
  define m1 where "m1 = virtio_set_status d VIRTIO_STAT_ACKNOWLEDGE (virtio_reset_device d m)"
  have mmio: "virtionet_init_mmio (f\<lparr>running := 0\<rparr>) (Some d) m = (0, v1, m1)"
    by (simp add: virtionet_init_mmio_def v1_def m1_def Let_def)
  have m1: "qsize m1 = qsize m" "slof_cma m1 = slof_cma m"
       "status_writes (trace m1) = status_writes (trace m) @ [0, 1]"
    by (simp_all add: m1_def shim_defs status_writes_append VIRTIO_STAT_ACKNOWLEDGE_def)
  have "\<exists>v' m'. virtionet_init v1 m1 = Some (0, v', m')
           \<and> running v' = 1
           \<and> slof_cma m' = Some bs \<and> qsize m' = qsize m1
           \<and> status_writes (trace m') = status_writes (trace m1) @ [3, 15]"
    using assms legacy_init_succeeds [of v1 m1 a1 p1 a2 p2 a3 p3 a4 p4 bs]
    by (simp add: v1_def m1)
  then obtain v' m' where I: "virtionet_init v1 m1 = Some (0, v', m')"
      "running v' = 1" "slof_cma m' = Some bs" "qsize m' = qsize m1"
      "status_writes (trace m') = status_writes (trace m1) @ [3, 15]"
    by blast
  show ?thesis
    using I m1 by (simp add: virtionet_open_def mmio)
qed

lemma test_net_opens:
  assumes "slof_cma m = slof_cma (test_machine 0 0 0 4)" "qsize m = qsize (test_machine 0 0 0 4)"
  shows "\<exists>v m'. virtionet_open (Some test_fresh) (Some (test_dev 0 0)) m = Some (Some v, m')
           \<and> running v = 1
           \<and> slof_cma m' = Some [(0x50000, 0x50000), (0x60000, 0x60000),
                                  (0x70000, 0x70000), (0x80000, 0x80000)]
           \<and> qsize m' = qsize m
           \<and> status_writes (trace m') = status_writes (trace m) @ [0, 1, 3, 15]"
  using assms
  by (intro legacy_open_succeeds [where ?a1.0 = "0x10000" and ?p1.0 = "0x10000"
          and ?a2.0 = "0x20000" and ?p2.0 = "0x20000" and ?a3.0 = "0x30000" and ?p3.0 = "0x30000"
          and ?a4.0 = "0x40000" and ?p4.0 = "0x40000"])
     (simp_all add: test_dev_def test_machine_def)

lemma legacy_blk_init_status:
  assumes "features dev AND VIRTIO_F_VERSION_1 = 0"
      and "virtioblk_init dev m = Some (r, dev', m')"
      and "\<not> wrote_failed (new_events m m')"
  shows "status_writes (new_events m m') = [0, 1, 3, 7]"
  using assms
  unfolding virtioblk_init_def blk_dev_error_def new_events_def wrote_failed_def
  by (auto simp: shim_defs const_defs Let_def split: if_splits option.splits list.splits prod.splits)

text \<open>
  C3. The claim holds for \<^verbatim>\<open>virtioblk_init\<close> and fails for the network driver:
  \<^verbatim>\<open>virtionet_init\<close> ends with \<^verbatim>\<open>status |= VIRTIO_STAT_DRIVER_OK | VIRTIO_STAT_FEATURES_OK\<close> on
  every device. Opening a legacy device that offers no features and has queues of 4
  entries succeeds, and the status values written are 0, 1, 3 and 15, the last with the
  FEATURES_OK bit.
\<close>

theorem legacy_net_open_sets_features_ok:
  "map_option (\<lambda>(v, m). (v \<noteq> None, status_writes (trace m)))
     (virtionet_open (Some test_fresh) (Some (test_dev 0 0)) (test_machine 0 0 0 4))
   = Some (True, [0, 1, 3, 15])
   \<and> (15 :: 32 word) AND VIRTIO_STAT_FEATURES_OK \<noteq> 0"
proof -
  obtain v m' where
    "virtionet_open (Some test_fresh) (Some (test_dev 0 0)) (test_machine 0 0 0 4) = Some (Some v, m')"
    "status_writes (trace m') = status_writes (trace (test_machine 0 0 0 4)) @ [0, 1, 3, 15]"
    using test_net_opens [of "test_machine 0 0 0 4"] by auto
  then show ?thesis
    by (simp add: test_machine_def VIRTIO_STAT_FEATURES_OK_def)
qed

text \<open>The register accesses of the shim, unfolded together.\<close>

lemmas reg_defs =
  emit_def virtio_get_config_def virtio_queue_notify_def virtio_set_status_def
  virtio_get_status_def virtio_reset_device_def virtio_get_host_features_def
  virtio_set_guest_features_def virtio_negotiate_guest_features_def virtio_get_qsize_def
  virtio_queue_ready_def virtio_queue_term_vq_def

text \<open>
  The two failures of \<^verbatim>\<open>virtioblk_init\<close> are those of the calls it makes:
  \<^verbatim>\<open>virtio_queue_init_vq\<close> returns NULL, and \<^verbatim>\<open>virtio_negotiate_guest_features\<close> returns a value
  other than 0.
\<close>

lemma queue_setup_fails_iff:
  assumes "slof_cma m \<noteq> None"
  shows "blk_queue_setup_fails m
           \<longleftrightarrow> (\<exists>d' m'. virtio_queue_init_vq dev 0 m = Some (False, d', m'))"
  using assms unfolding blk_queue_setup_fails_def
  by (auto simp: shim_defs Let_def split: option.splits list.splits)

lemma negotiation_fails_iff:
  "fst (virtio_negotiate_guest_features dev supported m) \<noteq> 0 \<longleftrightarrow> \<not> keeps_features_ok m"
proof -
  have a: "(ucast (r OR 8 :: 8 word) :: 32 word) AND 8 \<noteq> 0" for r
  proof -
    have "bit ((ucast (r OR 8 :: 8 word) :: 32 word) AND 8) 3"
      by (simp add: bit_simps)
    then show ?thesis by force
  qed
  have b: "(ucast ((r OR 8) AND NOT 8 :: 8 word) :: 32 word) AND 8 = 0" for r
    by (simp add: bit_eq_iff bit_simps)
  show ?thesis
    using a b by (simp add: shim_defs Let_def VIRTIO_STAT_FEATURES_OK_def)
qed



text \<open>
  A device whose queue has no entries, and a modern device that refuses the features:
  \<^verbatim>\<open>virtioblk_init\<close> returns 0 and its last status has the FAILED bit (131 = 3 + 128).
\<close>

lemma blk_init_no_queue:
  "map_option (\<lambda>(r, d, m). (r, status_writes (trace m)))
       (virtioblk_init (test_dev 0 0) (test_machine VIRTIO_BLK_F_BLK_SIZE 2048 512 0))
     = Some (0, [0, 1, 3, 131])"
  unfolding virtioblk_init_def blk_dev_error_def
  by (simp add: shim_defs const_defs Let_def test_machine_def test_dev_def)

lemma blk_init_features_refused:
  "map_option (\<lambda>(r, d, m). (r, status_writes (trace m)))
       (virtioblk_init (test_dev VIRTIO_F_VERSION_1 0)
          ((test_machine VIRTIO_F_VERSION_1 2048 512 16)\<lparr>keeps_features_ok := False\<rparr>))
     = Some (0, [0, 1, 3, 8, 131])"
  unfolding virtioblk_init_def blk_dev_error_def
  by (simp add: shim_defs const_defs Let_def test_machine_def test_dev_def
        BLK_DRIVER_FEATURE_SUPPORT_def)






section \<open>Receiving\<close>

lemma unat_of_nat_mod_32: "unat (word_of_nat (unat (x :: 32 word) mod Q) :: 32 word) = unat x mod Q"
proof -
  have "unat x mod Q \<le> unat x" by simp
  moreover have "unat x < 2 ^ 32" using unsigned_less [of x, where 'a = nat] by simp
  ultimately have "unat x mod Q < 2 ^ 32" by (rule le_less_trans)
  then show ?thesis by (simp add: unat_of_nat)
qed

lemma memcpy_fields:
  "trace (memcpy dst src n m) = trace m"
  "last_rx_idx (memcpy dst src n m) = last_rx_idx m"
  "big_endian (memcpy dst src n m) = big_endian m"
  by (simp_all add: memcpy_def)

text \<open>The first \<open>n\<close> bytes of the destination after \<^verbatim>\<open>memcpy\<close> are those of the source before.\<close>

lemma bytes_at_memcpy:
  assumes "n \<le> unat l"
  shows "bytes_at (memcpy dst src l m) dst n = bytes_at m src n"
  unfolding bytes_at_def
proof (rule map_cong [OF refl])
  fix k assume "k \<in> set [0 ..< n]"
  then have k: "k < unat l" using assms by simp
  have "unat l < 2 ^ 64" using unsigned_less [of l, where 'a = nat] by simp
  with k have "unat (word_of_nat k :: 64 word) = k"
    by (simp add: unat_of_nat)
  with k have "(word_of_nat k :: 64 word) < l"
    by (simp add: word_less_nat_alt)
  then show "mem (memcpy dst src l m) (dst + word_of_nat k) = mem m (src + word_of_nat k)"
    by (simp add: memcpy_def)
qed

lemma bytes_at_mem: "mem m' = mem m \<Longrightarrow> bytes_at m' a n = bytes_at m a n"
  by (simp add: bytes_at_def)

text \<open>A call of \<^verbatim>\<open>virtionet_receive\<close> that finds a used entry, in full.\<close>

lemma virtionet_receive_pending:
  assumes "rx_pending vnet m"
  shows "virtionet_receive vnet buf maxlen m =
     Some (rx_len vnet maxlen m,
       vnet\<lparr>vdev := (vdev vnet)\<lparr>vq := (vq (vdev vnet))(VQ_RX := (vq (vdev vnet) VQ_RX)
         \<lparr>avail_ring := (avail_ring (vq (vdev vnet) VQ_RX))
            (unat (rx_avail_idx vnet m) mod vq_size (vq (vdev vnet) VQ_RX) :=
               virtio_cpu_to_modern16 (big_endian m) (vdev vnet) (rx_repost_entry vnet m)),
          avail_idx := virtio_cpu_to_modern16 (big_endian m) (vdev vnet) (rx_avail_idx vnet m + 1)\<rparr>)\<rparr>\<rparr>,
       (memcpy buf (virtio_desc_addr (big_endian m) (vdev vnet) VQ_RX (rx_data_desc vnet m))
          (ucast (rx_len vnet maxlen m)) m)
         \<lparr>last_rx_idx := last_rx_idx m + 1,
          trace := trace m @
            [Store_Avail_Ring VQ_RX (unat (rx_avail_idx vnet m) mod vq_size (vq (vdev vnet) VQ_RX))
               (virtio_cpu_to_modern16 (big_endian m) (vdev vnet) (rx_repost_entry vnet m)),
             Barrier,
             Store_Avail_Idx VQ_RX
               (virtio_cpu_to_modern16 (big_endian m) (vdev vnet) (rx_avail_idx vnet m + 1)),
             Queue_Notify VQ_RX]\<rparr>)"
  using assms
  unfolding rx_pending_def virtionet_receive_def rx_id_raw_def rx_avail_idx_def rx_len_def
    rx_data_desc_def rx_repost_entry_def
  by (simp add: shim_defs ring_defs Let_def memcpy_fields unat_of_nat_mod_32)

lemma rx_repost_entry_id_raw:
  assumes "unat (rx_id_raw vnet m + 1) < vq_size (vq (vdev vnet) VQ_RX)"
  shows "rx_repost_entry vnet m = ucast (rx_id_raw vnet m)"
  using assms by (simp add: rx_repost_entry_def rx_data_desc_def)

text \<open>
  C4, as the code has it. A call of \<^verbatim>\<open>virtionet_receive\<close> that finds a pending used entry
  whose id field is \<open>id_raw\<close> copies to the caller the bytes at the address held by the
  descriptor \<open>(id_raw + 1) mod Q\<close>, as many as it returns; then it writes to
  \<^verbatim>\<open>avail.ring[avail.idx mod Q]\<close> the 16-bit value of \<open>((id_raw + 1) mod Q) - 1\<close>, issues a
  barrier, stores the incremented \<^verbatim>\<open>avail.idx\<close> and notifies RX. The entry written is
  \<open>id_raw\<close> itself, the head of the chain that the device reported, whenever
  \<open>id_raw + 1 < Q\<close>.
\<close>

theorem virtionet_receive_repost:
  assumes "rx_pending vnet m"
  shows "\<exists>vnet' m'.
           virtionet_receive vnet buf maxlen m = Some (rx_len vnet maxlen m, vnet', m')
         \<and> bytes_at m' buf (unat (rx_len vnet maxlen m))
             = bytes_at m (virtio_desc_addr (big_endian m) (vdev vnet) VQ_RX (rx_data_desc vnet m))
                 (unat (rx_len vnet maxlen m))
         \<and> rx_data_desc vnet m = unat (rx_id_raw vnet m + 1) mod vq_size (vq (vdev vnet) VQ_RX)
         \<and> new_events m m' =
             [Store_Avail_Ring VQ_RX (unat (rx_avail_idx vnet m) mod vq_size (vq (vdev vnet) VQ_RX))
                (virtio_cpu_to_modern16 (big_endian m) (vdev vnet) (rx_repost_entry vnet m)),
              Barrier,
              Store_Avail_Idx VQ_RX
                (virtio_cpu_to_modern16 (big_endian m) (vdev vnet) (rx_avail_idx vnet m + 1)),
              Queue_Notify VQ_RX]
         \<and> rx_repost_entry vnet m
             = ucast ((word_of_nat (unat (rx_id_raw vnet m + 1) mod vq_size (vq (vdev vnet) VQ_RX))
                        :: 32 word) - 1)
         \<and> (unat (rx_id_raw vnet m + 1) < vq_size (vq (vdev vnet) VQ_RX)
              \<longrightarrow> rx_repost_entry vnet m = ucast (rx_id_raw vnet m))"
proof -
  let ?src = "virtio_desc_addr (big_endian m) (vdev vnet) VQ_RX (rx_data_desc vnet m)"
  let ?l = "rx_len vnet maxlen m"
  let ?m1 = "memcpy buf ?src (ucast ?l) m"
  have "bytes_at ?m1 buf (unat ?l) = bytes_at m ?src (unat ?l)"
    by (rule bytes_at_memcpy) (simp add: ucast_32_64_unat)
  moreover have "bytes_at (?m1\<lparr>last_rx_idx := x, trace := t\<rparr>) buf (unat ?l)
                   = bytes_at ?m1 buf (unat ?l)" for x t
    by (rule bytes_at_mem) simp
  ultimately show ?thesis
    by (simp add: virtionet_receive_pending [OF assms] new_events_def rx_repost_entry_id_raw
          rx_data_desc_def rx_repost_entry_def)
qed

text \<open>
  The receive scenario with the chain headed by descriptor 2: the used entry is
  \<open>{id: 2, len: 10 + 64}\<close>, the queue has 16 entries and \<^verbatim>\<open>avail.idx\<close> is 8.
\<close>

lemma test_rx:
  "rx_pending test_rx_vnet test_rx_machine"
  "rx_id_raw test_rx_vnet test_rx_machine = 2"
  "rx_data_desc test_rx_vnet test_rx_machine = 3"
  "rx_repost_entry test_rx_vnet test_rx_machine = 2"
  "rx_len test_rx_vnet 2048 test_rx_machine = 64"
  "rx_avail_idx test_rx_vnet test_rx_machine = 8"
  "vq_size (vq (vdev test_rx_vnet) VQ_RX) = 16"
  "virtio_desc_addr (big_endian test_rx_machine) (vdev test_rx_vnet) VQ_RX 3 = 0x10610"
  "virtio_cpu_to_modern16 (big_endian test_rx_machine) (vdev test_rx_vnet) x = x"
  by (simp_all add: rx_pending_def rx_id_raw_def rx_data_desc_def rx_repost_entry_def rx_len_def
        rx_avail_idx_def virtio_desc_addr_def test_rx_vnet_def test_rx_machine_def
        test_machine_def zero_vq_def is_modern_def virtio_modern16_to_cpu_def
        virtio_modern32_to_cpu_def virtio_modern64_to_cpu_def virtio_cpu_to_modern16_def)

theorem virtionet_receive_repost_witness:
  "rx_pending test_rx_vnet test_rx_machine
   \<and> unat (rx_id_raw test_rx_vnet test_rx_machine + 1) < vq_size (vq (vdev test_rx_vnet) VQ_RX)
   \<and> (\<exists>vnet' m'.
         virtionet_receive test_rx_vnet 0x7000 2048 test_rx_machine = Some (64, vnet', m')
       \<and> bytes_at m' 0x7000 64 = bytes_at test_rx_machine 0x10610 64
       \<and> new_events test_rx_machine m' =
            [Store_Avail_Ring VQ_RX 8 2, Barrier, Store_Avail_Idx VQ_RX 9, Queue_Notify VQ_RX])"
  using virtionet_receive_repost [OF test_rx(1), of "0x7000" 2048]
  by (simp add: test_rx)

text \<open>
  The claim fails there: \<open>id_raw\<close> is 2, the entry written at slot 8 of the available ring
  is 2, and \<open>id_raw - 1\<close> is 1.
\<close>

theorem rx_repost_entry_counterexample:
  "rx_id_raw test_rx_vnet test_rx_machine = 2
   \<and> map_option (\<lambda>(r, v, m). avail_ring (vq (vdev v) VQ_RX) 8)
       (virtionet_receive test_rx_vnet 0x7000 2048 test_rx_machine)
     = Some 2
   \<and> (2 :: 16 word) \<noteq> 2 - 1"
  by (simp add: virtionet_receive_pending [OF test_rx(1)] test_rx)

section \<open>The guards of the network driver\<close>

text \<open>
  C9. When the instance pointer or the buffer pointer is NULL, \<^verbatim>\<open>virtionet_read\<close> and
  \<^verbatim>\<open>virtionet_write\<close> return -1; the instance, the rings, guest memory and the device are
  as before and nothing is added to the trace.
\<close>

theorem read_write_null:
  assumes "vnet = None \<or> buf = 0"
  shows "virtionet_read vnet buf l m = Some (- 1, vnet, m)
       \<and> virtionet_write vnet buf l m = Some (- 1, vnet, m)"
  using assms by (auto simp: virtionet_read_def virtionet_write_def split: option.splits)

theorem read_write_null_witness:
  "((None :: virtio_net option) = None \<or> (0x7000 :: 64 word) = 0)
   \<and> virtionet_read None 0x7000 2048 test_rx_machine = Some (- 1, None, test_rx_machine)
   \<and> virtionet_write None 0x7000 2048 test_rx_machine = Some (- 1, None, test_rx_machine)
   \<and> (Some test_rx_vnet = None \<or> (0 :: 64 word) = 0)
   \<and> virtionet_read (Some test_rx_vnet) 0 2048 test_rx_machine
       = Some (- 1, Some test_rx_vnet, test_rx_machine)
   \<and> virtionet_write (Some test_rx_vnet) 0 2048 test_rx_machine
       = Some (- 1, Some test_rx_vnet, test_rx_machine)"
  using read_write_null [of None "0x7000" 2048 test_rx_machine]
        read_write_null [of "Some test_rx_vnet" 0 2048 test_rx_machine]
  by simp

text \<open>
  After a call of \<^verbatim>\<open>virtionet_init\<close> that returned 0 the instance is running, and after a
  call of \<^verbatim>\<open>virtionet_term\<close> it is not.
\<close>

lemma init_queues_running:
  assumes "virtionet_init_queues status1 queue_size vnet d5 m7 = (r, v', m')"
  shows "running v' = 1"
  using assms virtionet_init_queues_result [of status1 queue_size vnet d5 m7] by auto

lemma init_zero_running:
  assumes "virtionet_init vnet m = Some (0, vnet', m')"
  shows "running vnet' \<noteq> 0"
proof (cases "running vnet = 0")
  case False
  with assms show ?thesis by (simp add: virtionet_init_def)
next
  case True
  show ?thesis
  proof (cases "features (vdev vnet) AND VIRTIO_F_VERSION_1 = 0")
    case legacy: True
    from assms True legacy show ?thesis
      unfolding virtionet_init_def net_dev_error_def
      by (auto simp: reg_defs Let_def dest: init_queues_running
            split: option.splits prod.splits if_splits)
  next
    case modern: False
    from assms True modern show ?thesis
      unfolding virtionet_init_def net_dev_error_def
      by (cases "keeps_features_ok m")
         (auto simp: reg_defs const_defs Let_def dest: init_queues_running
            split: option.splits prod.splits if_splits)
  qed
qed

lemma term_not_running:
  assumes "virtionet_term vnet m = Some (r, vnet', m')"
  shows "running vnet' = 0"
  using assms
  by (auto simp: virtionet_term_def Let_def split: if_splits option.splits)

text \<open>
  C10, as the code has it. \<^verbatim>\<open>virtionet_term\<close> called while \<^verbatim>\<open>running == 0\<close> returns 0 and
  leaves the instance with its queues and buffer pools and the machine with its device
  untouched; \<^verbatim>\<open>virtionet_init\<close> called while \<^verbatim>\<open>running != 0\<close> returns 0 and does the same. So
  a call of \<^verbatim>\<open>virtionet_init\<close> after one that returned 0, and a call of \<^verbatim>\<open>virtionet_term\<close>
  after one that returned, change nothing.
\<close>

theorem running_guard:
  "(running v1 = 0 \<longrightarrow> virtionet_term v1 m1 = Some (0, v1, m1))
   \<and> (running v2 \<noteq> 0 \<longrightarrow> virtionet_init v2 m2 = Some (0, v2, m2))
   \<and> (virtionet_init v3 m3 = Some (0, v3', m3') \<longrightarrow> virtionet_init v3' m3' = Some (0, v3', m3'))
   \<and> (virtionet_term v4 m4 = Some (r4, v4', m4') \<longrightarrow> virtionet_term v4' m4' = Some (0, v4', m4'))"
proof (intro conjI impI)
  assume "running v1 = 0"
  then show "virtionet_term v1 m1 = Some (0, v1, m1)" by (simp add: virtionet_term_def)
next
  assume "running v2 \<noteq> 0"
  then show "virtionet_init v2 m2 = Some (0, v2, m2)" by (simp add: virtionet_init_def)
next
  assume "virtionet_init v3 m3 = Some (0, v3', m3')"
  then have "running v3' \<noteq> 0" by (rule init_zero_running)
  then show "virtionet_init v3' m3' = Some (0, v3', m3')" by (simp add: virtionet_init_def)
next
  assume "virtionet_term v4 m4 = Some (r4, v4', m4')"
  then have "running v4' = 0" by (rule term_not_running)
  then show "virtionet_term v4' m4' = Some (0, v4', m4')" by (simp add: virtionet_term_def)
qed

text \<open>
  An instance that is not running on the legacy device with queues of 4 entries, and the
  running instance of the receive scenario.
\<close>

lemma test_init_succeeds:
  "\<exists>v' m'. virtionet_init (test_fresh\<lparr>running := 0\<rparr>) (test_machine 0 0 0 4) = Some (0, v', m')"
proof -
  have "\<exists>v' m'. virtionet_init (test_fresh\<lparr>running := 0\<rparr>) (test_machine 0 0 0 4) = Some (0, v', m')
           \<and> running v' = 1
           \<and> slof_cma m' = Some [(0x50000, 0x50000), (0x60000, 0x60000),
                                  (0x70000, 0x70000), (0x80000, 0x80000)]
           \<and> qsize m' = qsize (test_machine 0 0 0 4)
           \<and> status_writes (trace m') = status_writes (trace (test_machine 0 0 0 4)) @ [3, 15]"
    by (intro legacy_init_succeeds [where ?a1.0 = "0x10000" and ?p1.0 = "0x10000"
          and ?a2.0 = "0x20000" and ?p2.0 = "0x20000" and ?a3.0 = "0x30000" and ?p3.0 = "0x30000"
          and ?a4.0 = "0x40000" and ?p4.0 = "0x40000"])
       (simp_all add: test_fresh_def test_dev_def test_machine_def)
  then show ?thesis by blast
qed

lemma test_term_returns:
  "\<exists>v' m'. virtionet_term test_rx_vnet test_rx_machine = Some (0, v', m')"
  by (simp add: virtionet_term_def Let_def SLOF_free_mem_aligned_def reg_defs
        test_rx_vnet_def test_rx_machine_def test_machine_def)

theorem running_guard_witness:
  "running (test_fresh\<lparr>running := 0\<rparr>) = 0
   \<and> virtionet_term (test_fresh\<lparr>running := 0\<rparr>) (test_machine 0 0 0 4)
       = Some (0, test_fresh\<lparr>running := 0\<rparr>, test_machine 0 0 0 4)
   \<and> running test_rx_vnet \<noteq> 0
   \<and> virtionet_init test_rx_vnet test_rx_machine = Some (0, test_rx_vnet, test_rx_machine)
   \<and> (\<exists>v' m'. virtionet_init (test_fresh\<lparr>running := 0\<rparr>) (test_machine 0 0 0 4) = Some (0, v', m')
          \<and> virtionet_init v' m' = Some (0, v', m'))
   \<and> (\<exists>v' m'. virtionet_term test_rx_vnet test_rx_machine = Some (0, v', m')
          \<and> virtionet_term v' m' = Some (0, v', m'))"
proof -
  have a: "running (test_fresh\<lparr>running := 0\<rparr>) = 0" by simp
  have b: "running test_rx_vnet \<noteq> 0" by (simp add: test_rx_vnet_def)
  obtain v3 m3 where
    c: "virtionet_init (test_fresh\<lparr>running := 0\<rparr>) (test_machine 0 0 0 4) = Some (0, v3, m3)"
    using test_init_succeeds by blast
  obtain v4 m4 where
    d: "virtionet_term test_rx_vnet test_rx_machine = Some (0, v4, m4)"
    using test_term_returns by blast
  show ?thesis
    using a b c d
      running_guard [of "test_fresh\<lparr>running := 0\<rparr>" "test_machine 0 0 0 4"
        test_rx_vnet test_rx_machine
        "test_fresh\<lparr>running := 0\<rparr>" "test_machine 0 0 0 4" v3 m3
        test_rx_vnet test_rx_machine 0 v4 m4]
    by simp
qed

text \<open>
  The last clause of the claim fails for \<^verbatim>\<open>virtionet_open\<close>, which clears \<^verbatim>\<open>running\<close> in a new
  instance before it calls \<^verbatim>\<open>virtionet_init\<close>: a second call for the same device, after a
  first that succeeded and left its instance running, resets the device and writes the
  status values 0, 1, 3 and 15 again.
\<close>

theorem second_open_counterexample:
  "Option.bind (virtionet_open (Some test_fresh) (Some (test_dev 0 0)) (test_machine 0 0 0 4))
     (\<lambda>(v1, m1).
        map_option
          (\<lambda>(v2, m2). (map_option running v1, v2 \<noteq> None,
                        drop (length (status_writes (trace m1))) (status_writes (trace m2))))
          (virtionet_open (Some test_fresh) (Some (test_dev 0 0)) m1))
   = Some (Some 1, True, [0, 1, 3, 15])"
proof -
  let ?m0 = "test_machine 0 0 0 4"
  have blocks: "slof_cma ?m0 = Some [(0x10000, 0x10000), (0x20000, 0x20000), (0x30000, 0x30000),
                       (0x40000, 0x40000), (0x50000, 0x50000), (0x60000, 0x60000),
                       (0x70000, 0x70000), (0x80000, 0x80000)]"
    and sizes: "qsize ?m0 VQ_RX \<noteq> 0" "qsize ?m0 VQ_TX \<noteq> 0"
    and legacy: "features (test_dev 0 0) AND VIRTIO_F_VERSION_1 = 0"
    by (simp_all add: test_machine_def test_dev_def)
  obtain v1 m1 where first:
    "virtionet_open (Some test_fresh) (Some (test_dev 0 0)) ?m0 = Some (Some v1, m1)"
    "running v1 = 1"
    "slof_cma m1 = Some [(0x50000, 0x50000), (0x60000, 0x60000),
                          (0x70000, 0x70000), (0x80000, 0x80000)]"
    "qsize m1 = qsize ?m0"
    using legacy_open_succeeds [OF legacy sizes blocks, of test_fresh] by auto
  obtain v2 m2 where second:
    "virtionet_open (Some test_fresh) (Some (test_dev 0 0)) m1 = Some (Some v2, m2)"
    "status_writes (trace m2) = status_writes (trace m1) @ [0, 1, 3, 15]"
    using legacy_open_succeeds [OF legacy, of m1 "0x50000" "0x50000" "0x60000" "0x60000"
            "0x70000" "0x70000" "0x80000" "0x80000" "[]" test_fresh]
          first sizes
    by auto
  show ?thesis by (simp add: first second)
qed

end
